theory Spec2Isabelle
  imports Complex_Main "HOL-Library.AList"
begin

section \<open>JavaScript values\<close>

text \<open>
  A JavaScript \<open>number\<close> is an IEEE double. Its finite values are embedded in the reals;
  \<open>NaN\<close> and the two infinities are values of their own. Signed zero is not
  distinguished (the engine never divides by a parsed value, so the sign of zero is
  never observed).
\<close>

datatype number = Finite real | PosInfinity | NegInfinity | NaN

text \<open>
  The fields \<open>annualSalary\<close>, \<open>basicLifeCoverage\<close> and \<open>voluntaryLifeMultiple\<close> of a
  row are typed \<open>number | string\<close>; a row built by \<open>parseCSV\<close> may also lack a field
  (\<open>values[index]?.trim()\<close> is \<open>undefined\<close> for a short line).
\<close>

datatype jsval = JUndefined | JStr string | JNum number

text \<open>\<open>a > b\<close> on numbers: false as soon as one side is \<open>NaN\<close>.\<close>

fun js_gt :: "number \<Rightarrow> number \<Rightarrow> bool" where
  "js_gt NaN _ = False"
| "js_gt _ NaN = False"
| "js_gt (Finite a) (Finite b) = (a > b)"
| "js_gt PosInfinity PosInfinity = False"
| "js_gt PosInfinity _ = True"
| "js_gt NegInfinity _ = False"
| "js_gt (Finite a) NegInfinity = True"
| "js_gt (Finite a) PosInfinity = False"

text \<open>\<open>a <= b\<close> on numbers; it is not the negation of \<open>a > b\<close> at \<open>NaN\<close>.\<close>

fun js_le :: "number \<Rightarrow> number \<Rightarrow> bool" where
  "js_le NaN _ = False"
| "js_le _ NaN = False"
| "js_le (Finite a) (Finite b) = (a \<le> b)"
| "js_le NegInfinity _ = True"
| "js_le _ PosInfinity = True"
| "js_le PosInfinity _ = False"
| "js_le (Finite a) NegInfinity = False"

text \<open>
  The rounding of an exact real result to a double is a parameter \<open>rd\<close> of the model
  (see \<open>ieee_rounding\<close> below). An exact result whose magnitude reaches the largest
  double plus half a unit in its last place, \<open>2^1024 - 2^970\<close>, overflows to an
  infinity of its sign; any other result is rounded.
\<close>

definition overflow_threshold :: real where
  "overflow_threshold = 2 ^ 1024 - 2 ^ 970"

definition to_number :: "(real \<Rightarrow> real) \<Rightarrow> real \<Rightarrow> number" where
  "to_number rd x =
     (if x \<ge> overflow_threshold then PosInfinity
      else if x \<le> - overflow_threshold then NegInfinity
      else Finite (rd x))"

text \<open>\<open>a * b\<close> and \<open>a + b\<close> on numbers:\<close>

fun js_mul :: "(real \<Rightarrow> real) \<Rightarrow> number \<Rightarrow> number \<Rightarrow> number" where
  "js_mul rd NaN _ = NaN"
| "js_mul rd _ NaN = NaN"
| "js_mul rd (Finite a) (Finite b) = to_number rd (a * b)"
| "js_mul rd (Finite a) PosInfinity =
     (if a = 0 then NaN else if a > 0 then PosInfinity else NegInfinity)"
| "js_mul rd (Finite a) NegInfinity =
     (if a = 0 then NaN else if a > 0 then NegInfinity else PosInfinity)"
| "js_mul rd PosInfinity (Finite b) =
     (if b = 0 then NaN else if b > 0 then PosInfinity else NegInfinity)"
| "js_mul rd NegInfinity (Finite b) =
     (if b = 0 then NaN else if b > 0 then NegInfinity else PosInfinity)"
| "js_mul rd PosInfinity PosInfinity = PosInfinity"
| "js_mul rd PosInfinity NegInfinity = NegInfinity"
| "js_mul rd NegInfinity PosInfinity = NegInfinity"
| "js_mul rd NegInfinity NegInfinity = PosInfinity"

fun js_add :: "(real \<Rightarrow> real) \<Rightarrow> number \<Rightarrow> number \<Rightarrow> number" where
  "js_add rd NaN _ = NaN"
| "js_add rd _ NaN = NaN"
| "js_add rd (Finite a) (Finite b) = to_number rd (a + b)"
| "js_add rd PosInfinity NegInfinity = NaN"
| "js_add rd NegInfinity PosInfinity = NaN"
| "js_add rd PosInfinity _ = PosInfinity"
| "js_add rd NegInfinity _ = NegInfinity"
| "js_add rd (Finite a) PosInfinity = PosInfinity"
| "js_add rd (Finite a) NegInfinity = NegInfinity"

text \<open>\<open>x || 0\<close> on a number: \<open>NaN\<close> and zero are falsy.\<close>

fun or_zero :: "number \<Rightarrow> number" where
  "or_zero NaN = Finite 0"
| "or_zero (Finite a) = (if a = 0 then Finite 0 else Finite a)"
| "or_zero v = v"

text \<open>Truthiness of a string field that may be absent: \<open>undefined\<close> and \<open>""\<close> are falsy.\<close>

fun truthy :: "string option \<Rightarrow> bool" where
  "truthy None = False"
| "truthy (Some s) = (s \<noteq> [])"

text \<open>\<open>Math.round\<close> rounds to the nearest integer, a tie towards plus infinity.\<close>

definition Math_round :: "real \<Rightarrow> int" where
  "Math_round x = \<lfloor>x + 1 / 2\<rfloor>"

definition Math_ceil :: "real \<Rightarrow> int" where
  "Math_ceil x = \<lceil>x\<rceil>"

text \<open>
  A template literal renders a non-negative integer below \<open>10^21\<close> in decimal digits.
  The counters of the engine are bounded by the length of the row array, which is
  below \<open>2^32\<close> in JavaScript, so they are natural numbers in the model and
  arithmetic on them is exact.
\<close>

definition digit_char :: "nat \<Rightarrow> char" where
  "digit_char d = ''0123456789'' ! (d mod 10)"

fun show_nat :: "nat \<Rightarrow> string" where
  "show_nat n =
     (if n < 10 then [digit_char n] else show_nat (n div 10) @ [digit_char (n mod 10)])"

declare show_nat.simps [simp del]

definition show_int :: "int \<Rightarrow> string" where
  "show_int i = (if i < 0 then CHR ''-'' # show_nat (nat (- i)) else show_nat (nat i))"

section \<open>The data model (types.ts)\<close>

text \<open>
  The interfaces of \<open>types.ts\<close> as records. A string field of a row is \<open>None\<close> when
  the property is absent (\<open>undefined\<close>). Counts and rounded scores are integers. The
  field \<open>name\<close> of \<open>SubScore\<close> is \<open>sub_name\<close> here, since a row has a field
  \<open>name\<close> too; the severities \<open>Low\<close>, \<open>Medium\<close>, \<open>High\<close> are prefixed, since the
  risk levels have the same names.
\<close>

record CensusRow =
  employeeId :: "string option"
  name :: "string option"
  dob :: "string option"
  employmentStatus :: "string option"
  hireDate :: "string option"
  annualSalary :: jsval
  basicLifeCoverage :: jsval
  voluntaryLifeMultiple :: jsval
  dependentElections :: "string option"

datatype severity = SevLow | SevMedium | SevHigh

record RiskIssue =
  type :: string
  count :: int
  severity :: severity
  description :: string

record SubScore =
  sub_name :: string
  score :: int
  issues :: "RiskIssue list"

datatype riskLevel = Low | Moderate | High

record SubScores =
  completeness :: SubScore
  consistency :: SubScore
  eligibility :: SubScore
  eoiRisk :: SubScore

record PredictedImpact =
  clarifications :: string
  eoiVolume :: int
  postIssueCorrectionRisk :: string

record RecommendedAction =
  area :: string
  recommendation :: string

record AnalysisResult =
  overallScore :: int
  riskLevel :: riskLevel
  totalEmployees :: nat
  subScores :: SubScores
  anomalies :: "RiskIssue list"
  executiveSummary :: string
  topRiskDrivers :: "string list"
  predictedImpact :: PredictedImpact
  recommendedActions :: "RecommendedAction list"


section \<open>The environment of the engine\<close>

text \<open>
  The engine calls three built-ins of the language whose behaviour is not part of the
  repository, and computes in double precision. They are parameters of the model:
  \<^item> \<open>Date_parse s\<close> is the time value (milliseconds since the epoch) of
    \<open>new Date(s)\<close>, \<open>None\<close> when the date is invalid (\<open>getTime()\<close> is \<open>NaN\<close>);
  \<^item> \<open>parseFloat s\<close> is the built-in \<open>parseFloat\<close> on a string;
  \<^item> \<open>clock i\<close> is the time value of \<open>new Date()\<close> while row \<open>i\<close> is processed
    (\<open>getDaysSince\<close> reads the clock once for a row with a valid hire date);
  \<^item> \<open>fl x\<close> is the double nearest to the exact real \<open>x\<close>: every arithmetic
    operation of the source whose exact result need not be a double is followed by
    \<open>fl\<close>, and a decimal literal such as \<open>0.05\<close> denotes \<open>fl (5 / 100)\<close>.
\<close>

record env =
  Date_parse :: "string \<Rightarrow> int option"
  parseFloat :: "string \<Rightarrow> number"
  clock :: "nat \<Rightarrow> int"
  fl :: "real \<Rightarrow> real"

text \<open>
  What the theorems below assume of \<open>fl\<close>, as far as they assume anything: rounding is
  monotone, exact on the integers up to \<open>2^53\<close>, and has relative error at most
  \<open>2^-53\<close> in the normal range. Round-to-nearest of IEEE 754 binary64 has these
  properties, and so has exact arithmetic (\<open>fl = id\<close>).
\<close>

definition ieee_rounding :: "(real \<Rightarrow> real) \<Rightarrow> bool" where
  "ieee_rounding rd \<longleftrightarrow>
     (\<forall>x y. x \<le> y \<longrightarrow> rd x \<le> rd y) \<and>
     (\<forall>k::int. \<bar>k\<bar> \<le> 2 ^ 53 \<longrightarrow> rd (real_of_int k) = real_of_int k) \<and>
     (\<forall>x. 1 / 2 ^ 1022 \<le> \<bar>x\<bar> \<and> \<bar>x\<bar> \<le> 2 ^ 1023 \<longrightarrow> \<bar>rd x - x\<bar> \<le> \<bar>x\<bar> / 2 ^ 53)"

section \<open>Constants for the scoring logic\<close>

definition GI_LIMIT :: real where "GI_LIMIT = 150000"
definition PLAN_MAX_VOL_MULTIPLE :: real where "PLAN_MAX_VOL_MULTIPLE = 5"
definition WAITING_PERIOD_DAYS :: int where "WAITING_PERIOD_DAYS = 30"

definition PENALTY_MISSING_SALARY :: nat where "PENALTY_MISSING_SALARY = 5"
definition PENALTY_MISSING_DOB :: nat where "PENALTY_MISSING_DOB = 4"
definition PENALTY_VOL_OVER_MAX :: nat where "PENALTY_VOL_OVER_MAX = 6"
definition PENALTY_ZERO_SALARY_COV :: nat where "PENALTY_ZERO_SALARY_COV = 5"
definition PENALTY_WAITING_PERIOD :: nat where "PENALTY_WAITING_PERIOD = 5"
definition PENALTY_INELIGIBLE_DEP :: nat where "PENALTY_INELIGIBLE_DEP = 4"
definition PENALTY_EOI_MISSING_SALARY :: nat where "PENALTY_EOI_MISSING_SALARY = 3"

section \<open>Helper functions\<close>

text \<open>The character class \<open>[0-9.-]\<close>.\<close>

definition money_char :: "char \<Rightarrow> bool" where
  "money_char c \<longleftrightarrow> c \<in> set ''0123456789.-''"

text \<open>
  \<open>s.replace(/[^0-9.-]+/g, "")\<close>: scanning from the left, every maximal run of
  characters outside the class is one match and is replaced by the empty string.
\<close>

function replace_non_money :: "string \<Rightarrow> string" where
  "replace_non_money [] = []"
| "replace_non_money (c # cs) =
     (if money_char c then c # replace_non_money cs
      else replace_non_money (dropWhile (\<lambda>d. \<not> money_char d) cs))"
  by pat_completeness auto
termination
  by (relation "measure length") (auto simp: length_dropWhile_le less_Suc_eq_le)

text \<open>
  \<open>parseMoney\<close>: a number is returned as it is; a falsy value (\<open>undefined\<close>, \<open>""\<close>)
  gives 0; otherwise the cleaned string goes to \<open>parseFloat\<close>, and \<open>|| 0\<close> turns
  \<open>NaN\<close> into 0.
\<close>

fun parseMoney :: "env \<Rightarrow> jsval \<Rightarrow> number" where
  "parseMoney e (JNum n) = n"
| "parseMoney e JUndefined = Finite 0"
| "parseMoney e (JStr s) =
     (if s = [] then Finite 0 else or_zero (parseFloat e (replace_non_money s)))"

text \<open>
  \<open>parseFloat(v as string)\<close> converts its argument to a string first. \<open>undefined\<close>
  becomes \<open>"undefined"\<close>. A number becomes its shortest decimal representation that
  reads back as the same double, so \<open>parseFloat\<close> of it is the number itself.
\<close>

fun parseFloat_of :: "env \<Rightarrow> jsval \<Rightarrow> number" where
  "parseFloat_of e (JStr s) = parseFloat e s"
| "parseFloat_of e (JNum n) = n"
| "parseFloat_of e JUndefined = parseFloat e ''undefined''"

fun isValidDate :: "env \<Rightarrow> string option \<Rightarrow> bool" where
  "isValidDate e None = False"
| "isValidDate e (Some s) = (if s = [] then False else Date_parse e s \<noteq> None)"

text \<open>
  \<open>getDaysSince\<close>, called while row \<open>i\<close> is processed. The quotient of the two
  integers is a double, hence \<open>fl\<close>.
\<close>

definition getDaysSince :: "env \<Rightarrow> nat \<Rightarrow> string option \<Rightarrow> int" where
  "getDaysSince e i dateStr =
     (if \<not> isValidDate e dateStr then 9999
      else case dateStr of
        None \<Rightarrow> 9999
      | Some s \<Rightarrow>
          (case Date_parse e s of
             None \<Rightarrow> 9999
           | Some d \<Rightarrow>
               (let now = clock e i;
                    diffTime = \<bar>now - d\<bar>
                in Math_ceil (fl e (real_of_int diffTime / (1000 * 60 * 60 * 24))))))"

section \<open>The core logic engine: counting\<close>

text \<open>
  The mutable counters of \<open>analyzeCensusData\<close> and the \<open>Map\<close> of identifier counts.
  A JavaScript \<open>Map\<close> keeps its keys in insertion order and \<open>set\<close> on a present key
  keeps the key's place: an association list under \<open>AList.update\<close>.
\<close>

record counters =
  missingSalaryCount :: nat
  missingDobCount :: nat
  volMultiOverMaxCount :: nat
  zeroSalaryCount :: nat
  waitingPeriodCount :: nat
  ineligibleDepCount :: nat
  employeesExceedingGI :: nat
  employeeIdCounts :: "(string \<times> nat) list"

definition initial_counters :: counters where
  "initial_counters =
     \<lparr>missingSalaryCount = 0, missingDobCount = 0, volMultiOverMaxCount = 0,
      zeroSalaryCount = 0, waitingPeriodCount = 0, ineligibleDepCount = 0,
      employeesExceedingGI = 0, employeeIdCounts = []\<rparr>"

text \<open>The values parsed from a row and the conditions tested on them.\<close>

definition salary_of :: "env \<Rightarrow> CensusRow \<Rightarrow> number" where
  "salary_of e row = parseMoney e (annualSalary row)"

definition volMult_of :: "env \<Rightarrow> CensusRow \<Rightarrow> number" where
  "volMult_of e row = or_zero (parseFloat_of e (voluntaryLifeMultiple row))"

definition basicCov_of :: "env \<Rightarrow> CensusRow \<Rightarrow> number" where
  "basicCov_of e row = parseMoney e (basicLifeCoverage row)"

definition hasSalary :: "env \<Rightarrow> CensusRow \<Rightarrow> bool" where
  "hasSalary e row = js_gt (salary_of e row) (Finite 0)"

definition dobMissing :: "env \<Rightarrow> CensusRow \<Rightarrow> bool" where
  "dobMissing e row \<longleftrightarrow> \<not> truthy (dob row) \<or> \<not> isValidDate e (dob row)"

definition volOverMax :: "env \<Rightarrow> CensusRow \<Rightarrow> bool" where
  "volOverMax e row = js_gt (volMult_of e row) (Finite PLAN_MAX_VOL_MULTIPLE)"

definition zeroSalaryCov :: "env \<Rightarrow> CensusRow \<Rightarrow> bool" where
  "zeroSalaryCov e row \<longleftrightarrow> js_gt (volMult_of e row) (Finite 0) \<and> \<not> hasSalary e row"

definition inWaitingPeriod :: "env \<Rightarrow> nat \<Rightarrow> CensusRow \<Rightarrow> bool" where
  "inWaitingPeriod e i row \<longleftrightarrow>
     truthy (hireDate row) \<and> isValidDate e (hireDate row) \<and>
     getDaysSince e i (hireDate row) < WAITING_PERIOD_DAYS"

definition totalVolume :: "env \<Rightarrow> CensusRow \<Rightarrow> number" where
  "totalVolume e row =
     js_add (fl e) (basicCov_of e row) (js_mul (fl e) (salary_of e row) (volMult_of e row))"

definition exceedsGI :: "env \<Rightarrow> CensusRow \<Rightarrow> bool" where
  "exceedsGI e row = js_gt (totalVolume e row) (Finite GI_LIMIT)"

text \<open>\<open>employeeIdCounts.set(id, (employeeIdCounts.get(id) || 0) + 1)\<close>\<close>

definition count_id :: "string \<Rightarrow> (string \<times> nat) list \<Rightarrow> (string \<times> nat) list" where
  "count_id k m = AList.update k ((case map_of m k of None \<Rightarrow> 0 | Some c \<Rightarrow> c) + 1) m"

text \<open>The body of \<open>rows.forEach\<close>, for the row at index \<open>i\<close>.\<close>

definition processRow :: "env \<Rightarrow> nat \<Rightarrow> CensusRow \<Rightarrow> counters \<Rightarrow> counters" where
  "processRow e i row acc =
     (let acc1 = (if \<not> hasSalary e row
                  then acc\<lparr>missingSalaryCount := missingSalaryCount acc + 1\<rparr> else acc);
          acc2 = (if dobMissing e row
                  then acc1\<lparr>missingDobCount := missingDobCount acc1 + 1\<rparr> else acc1);
          acc3 = (if volOverMax e row
                  then acc2\<lparr>volMultiOverMaxCount := volMultiOverMaxCount acc2 + 1\<rparr> else acc2);
          acc4 = (if zeroSalaryCov e row
                  then acc3\<lparr>zeroSalaryCount := zeroSalaryCount acc3 + 1\<rparr> else acc3);
          acc5 = (if truthy (hireDate row) \<and> isValidDate e (hireDate row)
                  then (if getDaysSince e i (hireDate row) < WAITING_PERIOD_DAYS
                        then acc4\<lparr>waitingPeriodCount := waitingPeriodCount acc4 + 1\<rparr>
                        else acc4)
                  else acc4);
          acc6 = (if exceedsGI e row
                  then acc5\<lparr>employeesExceedingGI := employeesExceedingGI acc5 + 1\<rparr> else acc5)
      in case employeeId row of
           None \<Rightarrow> acc6
         | Some k \<Rightarrow>
             if k = [] then acc6
             else acc6\<lparr>employeeIdCounts := count_id k (employeeIdCounts acc6)\<rparr>)"

fun forEach_row :: "env \<Rightarrow> nat \<Rightarrow> CensusRow list \<Rightarrow> counters \<Rightarrow> counters" where
  "forEach_row e i [] acc = acc"
| "forEach_row e i (row # rows) acc = forEach_row e (Suc i) rows (processRow e i row acc)"

text \<open>
  \<open>employeeIdCounts.forEach(count => { if (count > 1) duplicateIdCount += (count - 1) })\<close>
\<close>

fun count_duplicates :: "(string \<times> nat) list \<Rightarrow> nat \<Rightarrow> nat" where
  "count_duplicates [] d = d"
| "count_duplicates ((k, c) # m) d =
     count_duplicates m (if c > 1 then d + (c - 1) else d)"

definition duplicateIdCount :: "env \<Rightarrow> CensusRow list \<Rightarrow> nat" where
  "duplicateIdCount e rows =
     count_duplicates (employeeIdCounts (forEach_row e 0 rows initial_counters)) 0"

section \<open>The core logic engine: sub-scores\<close>

text \<open>
  Part 2 and part 3 of \<open>analyzeCensusData\<close>. Each constant that the source binds is a
  function here, of the counters it is computed from and of the rounding, with the
  expression of the source as its body; \<open>analyzeCensusData\<close> below applies them to
  the counters of the loop. Sums, differences and products of integers are exact in
  double precision at the sizes that a row array allows; the quotients and the
  products with a decimal fraction are rounded.
\<close>

text \<open>\<open>Math.min(100, Math.max(0, x))\<close>\<close>

definition clamp100 :: "real \<Rightarrow> real" where
  "clamp100 x = min 100 (max 0 x)"

definition compDensityAdj :: "(real \<Rightarrow> real) \<Rightarrow> nat \<Rightarrow> nat \<Rightarrow> nat \<Rightarrow> real" where
  "compDensityAdj rd tot mSal mDob =
     (let completenessErrorDensity = rd (real (mSal + mDob) / real tot)
      in if completenessErrorDensity \<le> rd (5 / 100) then 15
         else if completenessErrorDensity \<le> rd (10 / 100) then 10
         else 0)"

definition completenessScore :: "(real \<Rightarrow> real) \<Rightarrow> nat \<Rightarrow> nat \<Rightarrow> nat \<Rightarrow> real" where
  "completenessScore rd tot mSal mDob =
     (let rawCompletenessDeductions =
            real (mSal * PENALTY_MISSING_SALARY + mDob * PENALTY_MISSING_DOB);
          rawCompletenessScore = 100 - rawCompletenessDeductions
      in clamp100 (rawCompletenessScore + compDensityAdj rd tot mSal mDob))"

definition consDensityAdj :: "(real \<Rightarrow> real) \<Rightarrow> nat \<Rightarrow> nat \<Rightarrow> nat \<Rightarrow> real" where
  "consDensityAdj rd tot vol zero =
     (let consistencyErrorCount = vol + zero;
          consistencyErrorDensity = rd (real consistencyErrorCount / real tot)
      in if consistencyErrorCount > 0
         then (if consistencyErrorDensity \<le> rd (5 / 100) then - 9 else - 15)
         else 0)"

definition consistencyScore :: "(real \<Rightarrow> real) \<Rightarrow> nat \<Rightarrow> nat \<Rightarrow> nat \<Rightarrow> real" where
  "consistencyScore rd tot vol zero =
     (let rawConsistencyDeductions =
            real (vol * PENALTY_VOL_OVER_MAX + zero * PENALTY_ZERO_SALARY_COV);
          rawConsistencyScore = 100 - rawConsistencyDeductions
      in clamp100 (rawConsistencyScore + consDensityAdj rd tot vol zero))"

definition eligibilityScore :: "nat \<Rightarrow> nat \<Rightarrow> real" where
  "eligibilityScore wait dep =
     (let eligibilityDeductions =
            real (wait * PENALTY_WAITING_PERIOD + dep * PENALTY_INELIGIBLE_DEP)
      in clamp100 (100 - eligibilityDeductions))"

definition eoiRatePercent :: "(real \<Rightarrow> real) \<Rightarrow> nat \<Rightarrow> nat \<Rightarrow> real" where
  "eoiRatePercent rd tot gi = rd (rd (real gi / real tot) * 100)"

definition eoiScore :: "(real \<Rightarrow> real) \<Rightarrow> nat \<Rightarrow> nat \<Rightarrow> nat \<Rightarrow> real" where
  "eoiScore rd tot gi mSal =
     (let eoiScoreRaw =
            rd (rd (100 - rd (eoiRatePercent rd tot gi * rd (8 / 10)))
                - real (mSal * PENALTY_EOI_MISSING_SALARY))
      in clamp100 eoiScoreRaw)"

text \<open>
  \<open>(completenessScore * 0.30) + (consistencyScore * 0.25) + (eligibilityScore * 0.25)
  + (eoiScore * 0.20)\<close>, added from the left.
\<close>

definition weightedScore :: "(real \<Rightarrow> real) \<Rightarrow> real \<Rightarrow> real \<Rightarrow> real \<Rightarrow> real \<Rightarrow> real" where
  "weightedScore rd cmpl cons elig eoi =
     rd (rd (rd (rd (cmpl * rd (30 / 100)) + rd (cons * rd (25 / 100)))
             + rd (elig * rd (25 / 100)))
         + rd (eoi * rd (20 / 100)))"

definition riskLevel_of :: "int \<Rightarrow> riskLevel" where
  "riskLevel_of overall =
     (if overall \<ge> 85 then Low else if overall \<ge> 70 then Moderate else High)"

definition toLowerCase_riskLevel :: "riskLevel \<Rightarrow> string" where
  "toLowerCase_riskLevel r =
     (case r of Low \<Rightarrow> ''low'' | Moderate \<Rightarrow> ''moderate'' | High \<Rightarrow> ''high'')"

section \<open>The core logic engine: the result\<close>

text \<open>
  Strings are byte lists; the two characters of the source outside ASCII, the arrow
  U+2192 and the en dash U+2013, are written as their UTF-8 bytes.
\<close>

definition arrow :: string where
  "arrow = [CHR 0xE2, CHR 0x86, CHR 0x92]"

definition en_dash :: string where
  "en_dash = [CHR 0xE2, CHR 0x80, CHR 0x93]"

text \<open>\<open>if (b) xs.push(x)\<close>\<close>

definition push_if :: "bool \<Rightarrow> 'a \<Rightarrow> 'a list \<Rightarrow> 'a list" where
  "push_if b x xs = (if b then xs @ [x] else xs)"

definition driver_gi :: "nat \<Rightarrow> string" where
  "driver_gi c = show_nat c @ '' employees exceed GI ($150k) '' @ arrow @ '' EOI required''"

definition driver_salary :: "nat \<Rightarrow> string" where
  "driver_salary c = show_nat c @ '' missing salary records''"

definition driver_waiting :: "nat \<Rightarrow> string" where
  "driver_waiting c = show_nat c @ '' employees in waiting period''"

definition driver_vol :: "nat \<Rightarrow> string" where
  "driver_vol c = show_nat c @ '' coverage elections exceeding plan max (5x)''"

definition driver_dup :: "nat \<Rightarrow> string" where
  "driver_dup c = show_nat c @ '' duplicate IDs''"

text \<open>The array \<open>drivers\<close> after its five conditional pushes.\<close>

definition drivers_of :: "nat \<Rightarrow> nat \<Rightarrow> nat \<Rightarrow> nat \<Rightarrow> nat \<Rightarrow> string list" where
  "drivers_of gi mSal wait vol dup =
     (let d0 = [];
          d1 = push_if (gi > 0) (driver_gi gi) d0;
          d2 = push_if (mSal > 0) (driver_salary mSal) d1;
          d3 = push_if (wait > 0) (driver_waiting wait) d2;
          d4 = push_if (vol > 0) (driver_vol vol) d3;
          d5 = push_if (dup > 0) (driver_dup dup) d4
      in d5)"

text \<open>The array \<open>actions\<close> after its conditional pushes and the fallback.\<close>

definition actions_of :: "nat \<Rightarrow> nat \<Rightarrow> nat \<Rightarrow> nat \<Rightarrow> RecommendedAction list" where
  "actions_of mSal gi dup vol =
     (let a0 = [];
          a1 = push_if (mSal > 0)
                 \<lparr>area = ''Missing Salary'', recommendation = ''Employer clarification upfront''\<rparr> a0;
          a2 = push_if (gi > 0)
                 \<lparr>area = ''EOI Volume'', recommendation = ''Pre-emptive EOI communication''\<rparr> a1;
          a3 = push_if (dup > 0)
                 \<lparr>area = ''Duplicates'', recommendation = ''Deduplicate before enrollment''\<rparr> a2;
          a4 = push_if (vol > 0)
                 \<lparr>area = ''Plan Limits'', recommendation = ''Cap voluntary elections at 5x''\<rparr> a3;
          a5 = push_if (length a4 = 0)
                 \<lparr>area = ''General'', recommendation = ''Proceed to enrollment''\<rparr> a4
      in a5)"

definition anomalies_of :: "(real \<Rightarrow> real) \<Rightarrow> nat \<Rightarrow> nat \<Rightarrow> nat \<Rightarrow> RiskIssue list" where
  "anomalies_of rd tot dup mSal =
     (let a0 = [];
          a1 = push_if (dup > 0)
                 \<lparr>type = ''Duplicate IDs'', count = int dup,
                  severity = SevHigh, description = ''Duplicate employee IDs found''\<rparr> a0;
          a2 = push_if (real mSal > rd (real tot * rd (1 / 10)))
                 \<lparr>type = ''Missing Salaries'', count = int mSal,
                  severity = SevHigh,
                  description = ''High volume of missing salaries''\<rparr> a1
      in a2)"

definition summary_of :: "riskLevel \<Rightarrow> int \<Rightarrow> nat \<Rightarrow> nat \<Rightarrow> string" where
  "summary_of level overall gi mSal =
     ''This census demonstrates '' @ toLowerCase_riskLevel level @
     '' enrollment risk (Score: '' @ show_int overall @
     ''). Primary drivers include '' @ show_nat gi @ '' EOI cases and '' @
     show_nat mSal @ '' missing data points.''"

text \<open>The object that \<open>analyzeCensusData\<close> returns for an empty array.\<close>

definition empty_result :: AnalysisResult where
  "empty_result =
     \<lparr>overallScore = 0,
      riskLevel = High,
      totalEmployees = 0,
      subScores =
        \<lparr>completeness = \<lparr>sub_name = ''Completeness'', score = 0, issues = []\<rparr>,
         consistency = \<lparr>sub_name = ''Consistency'', score = 0, issues = []\<rparr>,
         eligibility = \<lparr>sub_name = ''Eligibility'', score = 0, issues = []\<rparr>,
         eoiRisk = \<lparr>sub_name = ''EOI Risk'', score = 0, issues = []\<rparr>\<rparr>,
      anomalies = [],
      executiveSummary = ''No data found in file.'',
      topRiskDrivers = [],
      predictedImpact =
        \<lparr>clarifications = ''0'', eoiVolume = 0, postIssueCorrectionRisk = ''None''\<rparr>,
      recommendedActions = []\<rparr>"

text \<open>
  The engine. It has no error value: no operation of the source can throw on rows of
  the declared type.
\<close>

definition analyzeCensusData :: "env \<Rightarrow> CensusRow list \<Rightarrow> AnalysisResult" where
  "analyzeCensusData e rows =
     (let tot = length rows in
      if tot = 0 then empty_result
      else
        let acc = forEach_row e 0 rows initial_counters;
            mSal = missingSalaryCount acc;
            mDob = missingDobCount acc;
            vol = volMultiOverMaxCount acc;
            zero = zeroSalaryCount acc;
            wait = waitingPeriodCount acc;
            dep = ineligibleDepCount acc;
            gi = employeesExceedingGI acc;
            dup = count_duplicates (employeeIdCounts acc) 0;
            cmpl = completenessScore (fl e) tot mSal mDob;
            cons = consistencyScore (fl e) tot vol zero;
            elig = eligibilityScore wait dep;
            eoi = eoiScore (fl e) tot gi mSal;
            overall = Math_round (weightedScore (fl e) cmpl cons elig eoi);
            level = riskLevel_of overall;
            eoiVol = Math_ceil (fl e (real gi * fl e (11 / 10)));
            clarificationCycles =
              (if overall < 70 then ''6+''
               else if overall < 85 then ''4'' @ en_dash @ ''6'' else ''1-2'');
            postIssueRisk =
              (if overall < 70 then ''High'' else if overall < 85 then ''Medium'' else ''Low'')
        in \<lparr>overallScore = overall,
            riskLevel = level,
            totalEmployees = tot,
            subScores =
              \<lparr>completeness =
                 \<lparr>sub_name = ''Completeness'', score = Math_round cmpl,
                  issues =
                    [\<lparr>type = ''Missing Salary'', count = int mSal,
                      severity = SevHigh,
                      description = ''Salary field is empty or null''\<rparr>,
                     \<lparr>type = ''Missing DOB'', count = int mDob,
                      severity = SevMedium,
                      description = ''Date of birth missing''\<rparr>]\<rparr>,
               consistency =
                 \<lparr>sub_name = ''Consistency'', score = Math_round cons,
                  issues =
                    [\<lparr>type = ''Voluntary > Max'', count = int vol,
                      severity = SevHigh,
                      description = ''Voluntary multiple > plan max (5x)''\<rparr>,
                     \<lparr>type = ''Zero Salary Coverage'', count = int zero,
                      severity = SevHigh,
                      description = ''Coverage elected with $0 salary''\<rparr>]\<rparr>,
               eligibility =
                 \<lparr>sub_name = ''Eligibility'', score = Math_round elig,
                  issues =
                    [\<lparr>type = ''Waiting Period'', count = int wait,
                      severity = SevMedium,
                      description = ''Employees in waiting period (<30 days)''\<rparr>,
                     \<lparr>type = ''Ineligible Dependents'', count = int dep,
                      severity = SevMedium,
                      description =
                        ''Dependents exceeding age limits (Note: Data unavailable)''\<rparr>]\<rparr>,
               eoiRisk =
                 \<lparr>sub_name = ''EOI Risk'', score = Math_round eoi,
                  issues =
                    [\<lparr>type = ''Exceeding GI'', count = int gi,
                      severity = SevHigh,
                      description = ''Employees exceeding Guaranteed Issue ($150k)''\<rparr>,
                     \<lparr>type = ''EOI Rate'',
                      count = Math_round (eoiRatePercent (fl e) tot gi),
                      severity = SevMedium,
                      description = ''% of group requiring EOI''\<rparr>]\<rparr>\<rparr>,
            anomalies = anomalies_of (fl e) tot dup mSal,
            executiveSummary = summary_of level overall gi mSal,
            topRiskDrivers = take 5 (drivers_of gi mSal wait vol dup),
            predictedImpact =
              \<lparr>clarifications = clarificationCycles @ '' cycles'', eoiVolume = eoiVol,
               postIssueCorrectionRisk = postIssueRisk\<rparr>,
            recommendedActions = actions_of mSal gi dup vol\<rparr>)"

section \<open>A concrete environment\<close>

text \<open>
  The theorems about the engine hold for every environment. To run the engine on
  concrete rows the parameters are instantiated with the fragments of the built-ins
  that ECMAScript fixes: \<open>parseFloat\<close> on a \<open>StrDecimalLiteral\<close> prefix (after leading
  white space), and \<open>Date\<close> on the date-only form \<open>YYYY-MM-DD\<close> of a valid calendar
  day, which is read as midnight UTC. Every other string is an invalid date in this
  instance; the rows used below contain no such string. Arithmetic is exact in it.
\<close>

definition is_digit :: "char \<Rightarrow> bool" where
  "is_digit c \<longleftrightarrow> c \<in> set ''0123456789''"

text \<open>The value of a decimal digit: its position in \<open>0123456789\<close>.\<close>

definition digit_val :: "char \<Rightarrow> nat" where
  "digit_val c = length (takeWhile (\<lambda>d. d \<noteq> c) ''0123456789'')"

definition digits_val :: "string \<Rightarrow> nat" where
  "digits_val ds = foldl (\<lambda>a c. 10 * a + digit_val c) 0 ds"

definition is_space :: "char \<Rightarrow> bool" where
  "is_space c \<longleftrightarrow> c \<in> set [CHR '' '', CHR 0x09, CHR 0x0A, CHR 0x0B, CHR 0x0C, CHR 0x0D]"

text \<open>The value of the longest \<open>ExponentPart\<close> that the string starts with, 0 if none.\<close>

definition exponent_part :: "string \<Rightarrow> int" where
  "exponent_part s =
     (case s of
        [] \<Rightarrow> 0
      | c # r \<Rightarrow>
          if c = CHR ''e'' \<or> c = CHR ''E'' then
            (case r of
               [] \<Rightarrow> 0
             | sg # t \<Rightarrow>
                 if sg = CHR ''-'' then - int (digits_val (takeWhile is_digit t))
                 else if sg = CHR ''+'' then int (digits_val (takeWhile is_digit t))
                 else int (digits_val (takeWhile is_digit r)))
          else 0)"

definition scale10 :: "real \<Rightarrow> int \<Rightarrow> real" where
  "scale10 m x = (if x \<ge> 0 then m * 10 ^ nat x else m / 10 ^ nat (- x))"

definition unsigned_decimal :: "string \<Rightarrow> real option" where
  "unsigned_decimal s =
     (let ip = takeWhile is_digit s;
          r1 = dropWhile is_digit s;
          fp = (case r1 of [] \<Rightarrow> [] | c # t \<Rightarrow> if c = CHR ''.'' then takeWhile is_digit t else []);
          r2 = (case r1 of [] \<Rightarrow> [] | c # t \<Rightarrow> if c = CHR ''.'' then dropWhile is_digit t else r1)
      in if ip = [] \<and> fp = [] then None
         else Some (scale10 (real (digits_val ip) + real (digits_val fp) / 10 ^ length fp)
                      (exponent_part r2)))"

definition decimal_parseFloat :: "string \<Rightarrow> number" where
  "decimal_parseFloat s =
     (let t = dropWhile is_space s;
          neg = (case t of [] \<Rightarrow> False | c # _ \<Rightarrow> c = CHR ''-'');
          u = (case t of [] \<Rightarrow> [] | c # r \<Rightarrow> if c = CHR ''-'' \<or> c = CHR ''+'' then r else t)
      in if take 8 u = ''Infinity'' then (if neg then NegInfinity else PosInfinity)
         else case unsigned_decimal u of
                None \<Rightarrow> NaN
              | Some v \<Rightarrow> Finite (if neg then - v else v))"

definition is_leap :: "int \<Rightarrow> bool" where
  "is_leap y \<longleftrightarrow> (y mod 4 = 0 \<and> y mod 100 \<noteq> 0) \<or> y mod 400 = 0"

definition days_in_month :: "int \<Rightarrow> int \<Rightarrow> int" where
  "days_in_month y m =
     (if m = 2 then (if is_leap y then 29 else 28)
      else if m = 4 \<or> m = 6 \<or> m = 9 \<or> m = 11 then 30 else 31)"

text \<open>Days from 1970-01-01 to the civil date \<open>y-m-d\<close> of the proleptic Gregorian calendar.\<close>

definition days_from_civil :: "int \<Rightarrow> int \<Rightarrow> int \<Rightarrow> int" where
  "days_from_civil y m d =
     (let y1 = (if m \<le> 2 then y - 1 else y);
          era = y1 div 400;
          yoe = y1 - era * 400;
          doy = (153 * (if m > 2 then m - 3 else m + 9) + 2) div 5 + d - 1;
          doe = yoe * 365 + yoe div 4 - yoe div 100 + doy
      in era * 146097 + doe - 719468)"

definition iso_Date_parse :: "string \<Rightarrow> int option" where
  "iso_Date_parse s =
     (if length s = 10 \<and> s ! 4 = CHR ''-'' \<and> s ! 7 = CHR ''-'' \<and>
         list_all is_digit (take 4 s) \<and> list_all is_digit (take 2 (drop 5 s)) \<and>
         list_all is_digit (drop 8 s)
      then
        (let y = int (digits_val (take 4 s));
             m = int (digits_val (take 2 (drop 5 s)));
             d = int (digits_val (drop 8 s))
         in if 1 \<le> m \<and> m \<le> 12 \<and> 1 \<le> d \<and> d \<le> days_in_month y m
            then Some (days_from_civil y m d * 86400000) else None)
      else None)"

text \<open>
  A run in which every clock reading is \<open>t\<close>. \<open>1705276800000\<close> is
  2024-01-15T00:00:00Z and \<open>1709251200000\<close> is 2024-03-01T00:00:00Z.
\<close>

definition env_at :: "int \<Rightarrow> env" where
  "env_at t =
     \<lparr>Date_parse = iso_Date_parse, parseFloat = decimal_parseFloat,
      clock = (\<lambda>i. t), fl = (\<lambda>x. x)\<rparr>"

definition env0 :: env where
  "env0 = env_at 1705276800000"

text \<open>A row with nothing wrong: salary 50000, no elected coverage, hired long ago.\<close>

definition clean_row :: "string \<Rightarrow> CensusRow" where
  "clean_row k =
     \<lparr>employeeId = Some k, name = Some ''A'', dob = Some ''1980-05-17'',
      employmentStatus = Some ''Active'', hireDate = Some ''2015-03-01'',
      annualSalary = JStr ''$50,000'', basicLifeCoverage = JStr ''50000'',
      voluntaryLifeMultiple = JStr ''0'', dependentElections = Some []\<rparr>"


section \<open>The counts and sub-scores of a row sequence\<close>

text \<open>
  What the counters hold after the loop, said without the loop: the number of rows
  that satisfy each condition, and the truthy identifiers in row order.
\<close>

definition count_where :: "('a \<Rightarrow> bool) \<Rightarrow> 'a list \<Rightarrow> nat" where
  "count_where P xs = length (filter P xs)"

definition n_missingSalary :: "env \<Rightarrow> CensusRow list \<Rightarrow> nat" where
  "n_missingSalary e rows = count_where (\<lambda>r. \<not> hasSalary e r) rows"

definition n_missingDob :: "env \<Rightarrow> CensusRow list \<Rightarrow> nat" where
  "n_missingDob e rows = count_where (dobMissing e) rows"

definition n_volOverMax :: "env \<Rightarrow> CensusRow list \<Rightarrow> nat" where
  "n_volOverMax e rows = count_where (volOverMax e) rows"

definition n_zeroSalaryCov :: "env \<Rightarrow> CensusRow list \<Rightarrow> nat" where
  "n_zeroSalaryCov e rows = count_where (zeroSalaryCov e) rows"

definition n_waiting :: "env \<Rightarrow> CensusRow list \<Rightarrow> nat" where
  "n_waiting e rows = count_where (\<lambda>(i, r). inWaitingPeriod e i r) (enumerate 0 rows)"

definition n_exceedsGI :: "env \<Rightarrow> CensusRow list \<Rightarrow> nat" where
  "n_exceedsGI e rows = count_where (exceedsGI e) rows"

definition truthy_ids :: "CensusRow list \<Rightarrow> string list" where
  "truthy_ids rows =
     concat (map (\<lambda>r. case employeeId r of
                          None \<Rightarrow> []
                        | Some k \<Rightarrow> if k = [] then [] else [k]) rows)"

text \<open>The four sub-score values of a row sequence, clamped and not yet rounded.\<close>

definition completeness_of :: "env \<Rightarrow> CensusRow list \<Rightarrow> real" where
  "completeness_of e rows =
     completenessScore (fl e) (length rows) (n_missingSalary e rows) (n_missingDob e rows)"

definition consistency_of :: "env \<Rightarrow> CensusRow list \<Rightarrow> real" where
  "consistency_of e rows =
     consistencyScore (fl e) (length rows) (n_volOverMax e rows) (n_zeroSalaryCov e rows)"

definition eligibility_of :: "env \<Rightarrow> CensusRow list \<Rightarrow> real" where
  "eligibility_of e rows = eligibilityScore (n_waiting e rows) 0"

definition eoiRisk_of :: "env \<Rightarrow> CensusRow list \<Rightarrow> real" where
  "eoiRisk_of e rows =
     eoiScore (fl e) (length rows) (n_exceedsGI e rows) (n_missingSalary e rows)"



text \<open>The fallback action.\<close>

definition general_action :: RecommendedAction where
  "general_action = \<lparr>area = ''General'', recommendation = ''Proceed to enrollment''\<rparr>"

text \<open>A row whose parsed salary is \<open>\<le> 0\<close>, as the specification words a missing salary.\<close>

definition salary_le_zero :: "env \<Rightarrow> CensusRow \<Rightarrow> bool" where
  "salary_le_zero e row = js_le (salary_of e row) (Finite 0)"

section \<open>Identifier occurrences and the rows of the examples\<close>

text \<open>The number of records that carry the identifier \<open>k\<close>.\<close>

definition occurrences :: "CensusRow list \<Rightarrow> string \<Rightarrow> nat" where
  "occurrences rows k = count_where (\<lambda>r. employeeId r = Some k) rows"

text \<open>
  A row that triggers every condition when the clock reads 2024-01-15: salary 0, a
  voluntary multiple of 6, basic coverage of 200000, hired on 2024-01-10.
\<close>

definition risky_row :: CensusRow where
  "risky_row =
     \<lparr>employeeId = Some ''7'', name = Some ''B'', dob = Some ''1990-01-01'',
      employmentStatus = Some ''Active'', hireDate = Some ''2024-01-10'',
      annualSalary = JStr ''0'', basicLifeCoverage = JStr ''$200,000'',
      voluntaryLifeMultiple = JStr ''6'', dependentElections = None\<rparr>"

text \<open>Six rows with the identifiers A, B, A, empty, A, empty.\<close>

definition triple_id_rows :: "CensusRow list" where
  "triple_id_rows =
     [clean_row ''A'', clean_row ''B'', clean_row ''A'', clean_row [], clean_row ''A'',
      clean_row []]"

text \<open>Variants of the clean row: salary 0, an empty date of birth, the number \<open>NaN\<close> as salary.\<close>

definition no_salary_row :: "string \<Rightarrow> CensusRow" where
  "no_salary_row k = (clean_row k)\<lparr>annualSalary := JStr ''0''\<rparr>"

definition no_dob_row :: "string \<Rightarrow> CensusRow" where
  "no_dob_row k = (clean_row k)\<lparr>dob := Some []\<rparr>"

definition nan_salary_row :: "string \<Rightarrow> CensusRow" where
  "nan_salary_row k = (clean_row k)\<lparr>annualSalary := JNum NaN\<rparr>"

text \<open>
  Ten rows with distinct identifiers: two without salary and one without date of
  birth; and the same with a salary of \<open>NaN\<close> on a fourth row.
\<close>

definition c7_rows :: "CensusRow list" where
  "c7_rows =
     [no_salary_row ''1'', no_salary_row ''2'', no_dob_row ''3'', clean_row ''4'',
      clean_row ''5'', clean_row ''6'', clean_row ''7'', clean_row ''8'', clean_row ''9'',
      clean_row ''10'']"

definition c7_nan_rows :: "CensusRow list" where
  "c7_nan_rows =
     [no_salary_row ''1'', no_salary_row ''2'', no_dob_row ''3'', nan_salary_row ''4'',
      clean_row ''5'', clean_row ''6'', clean_row ''7'', clean_row ''8'', clean_row ''9'',
      clean_row ''10'']"

text \<open>
  Rows whose numeric fields are numbers and whose other fields are absent, so that no
  built-in parser is called on them: three rows, one with a voluntary multiple of 6,
  one with basic coverage of 200000.
\<close>

definition salaried_row :: CensusRow where
  "salaried_row =
     \<lparr>employeeId = None, name = None, dob = None, employmentStatus = None, hireDate = None,
      annualSalary = JNum (Finite 50000), basicLifeCoverage = JNum (Finite 0),
      voluntaryLifeMultiple = JNum (Finite 0), dependentElections = None\<rparr>"

definition gap_rows :: "CensusRow list" where
  "gap_rows =
     [salaried_row\<lparr>voluntaryLifeMultiple := JNum (Finite 6)\<rparr>,
      salaried_row\<lparr>basicLifeCoverage := JNum (Finite 200000)\<rparr>,
      salaried_row]"

text \<open>
  Twelve rows with salary 0 and no date of birth: the deductions of Completeness exceed
  100, so its value is clamped at 0.
\<close>

definition unpaid_row :: CensusRow where
  "unpaid_row = salaried_row\<lparr>annualSalary := JNum (Finite 0)\<rparr>"

definition clamped_rows :: "CensusRow list" where
  "clamped_rows =
     [unpaid_row, unpaid_row, unpaid_row, unpaid_row, unpaid_row, unpaid_row,
      unpaid_row, unpaid_row, unpaid_row, unpaid_row, unpaid_row, unpaid_row]"

section \<open>The regular expression of parseMoney\<close>

text \<open>
  Removing every maximal run of characters outside the class is the same as keeping
  the characters of the class.
\<close>

lemma replace_non_money_filter: "replace_non_money s = filter money_char s"
proof (induction s rule: replace_non_money.induct)
  case 1
  show ?case by simp
next
  case (2 c cs)
  show ?case
  proof (cases "money_char c")
    case True
    with 2 show ?thesis by simp
  next
    case False
    have "filter money_char (dropWhile (\<lambda>d. \<not> money_char d) cs) = filter money_char cs"
      by (induction cs) auto
    with False 2 show ?thesis by simp
  qed
qed

section \<open>The loop in closed form\<close>

text \<open>
  One pass of the loop body changes each counter by at most one, by the condition of
  that counter alone; so after the loop each counter holds the number of rows that
  satisfy its condition, and the table of identifiers is the fold of \<open>count_id\<close> over
  the truthy identifiers.
\<close>

lemma processRow_missingSalary:
  "missingSalaryCount (processRow e i row acc) =
     missingSalaryCount acc + (if \<not> hasSalary e row then 1 else 0)"
  by (simp add: processRow_def Let_def split: option.splits)

lemma processRow_missingDob:
  "missingDobCount (processRow e i row acc) =
     missingDobCount acc + (if dobMissing e row then 1 else 0)"
  by (simp add: processRow_def Let_def split: option.splits)

lemma processRow_volOverMax:
  "volMultiOverMaxCount (processRow e i row acc) =
     volMultiOverMaxCount acc + (if volOverMax e row then 1 else 0)"
  by (simp add: processRow_def Let_def split: option.splits)

lemma processRow_zeroSalary:
  "zeroSalaryCount (processRow e i row acc) =
     zeroSalaryCount acc + (if zeroSalaryCov e row then 1 else 0)"
  by (simp add: processRow_def Let_def split: option.splits)

lemma processRow_waiting:
  "waitingPeriodCount (processRow e i row acc) =
     waitingPeriodCount acc + (if inWaitingPeriod e i row then 1 else 0)"
  by (simp add: processRow_def inWaitingPeriod_def Let_def split: option.splits)

lemma processRow_ineligibleDep:
  "ineligibleDepCount (processRow e i row acc) = ineligibleDepCount acc"
  by (simp add: processRow_def Let_def split: option.splits)

lemma processRow_exceedsGI:
  "employeesExceedingGI (processRow e i row acc) =
     employeesExceedingGI acc + (if exceedsGI e row then 1 else 0)"
  by (simp add: processRow_def Let_def split: option.splits)

lemma processRow_ids:
  "employeeIdCounts (processRow e i row acc) =
     fold count_id (truthy_ids [row]) (employeeIdCounts acc)"
  by (simp add: processRow_def truthy_ids_def Let_def split: option.splits)

lemma forEach_missingSalary:
  "missingSalaryCount (forEach_row e i rows acc) = missingSalaryCount acc + n_missingSalary e rows"
  by (induction rows arbitrary: i acc)
     (simp_all add: n_missingSalary_def count_where_def processRow_missingSalary)

lemma forEach_missingDob:
  "missingDobCount (forEach_row e i rows acc) = missingDobCount acc + n_missingDob e rows"
  by (induction rows arbitrary: i acc)
     (simp_all add: n_missingDob_def count_where_def processRow_missingDob)

lemma forEach_volOverMax:
  "volMultiOverMaxCount (forEach_row e i rows acc) = volMultiOverMaxCount acc + n_volOverMax e rows"
  by (induction rows arbitrary: i acc)
     (simp_all add: n_volOverMax_def count_where_def processRow_volOverMax)

lemma forEach_zeroSalary:
  "zeroSalaryCount (forEach_row e i rows acc) = zeroSalaryCount acc + n_zeroSalaryCov e rows"
  by (induction rows arbitrary: i acc)
     (simp_all add: n_zeroSalaryCov_def count_where_def processRow_zeroSalary)

lemma forEach_waiting_from:
  "waitingPeriodCount (forEach_row e i rows acc) =
     waitingPeriodCount acc + count_where (\<lambda>(j, r). inWaitingPeriod e j r) (enumerate i rows)"
  by (induction rows arbitrary: i acc)
     (simp_all add: count_where_def processRow_waiting)

lemma forEach_ineligibleDep:
  "ineligibleDepCount (forEach_row e i rows acc) = ineligibleDepCount acc"
  by (induction rows arbitrary: i acc) (simp_all add: processRow_ineligibleDep)

lemma forEach_exceedsGI:
  "employeesExceedingGI (forEach_row e i rows acc) = employeesExceedingGI acc + n_exceedsGI e rows"
  by (induction rows arbitrary: i acc)
     (simp_all add: n_exceedsGI_def count_where_def processRow_exceedsGI)

lemma truthy_ids_Cons: "truthy_ids (r # rows) = truthy_ids [r] @ truthy_ids rows"
  by (simp add: truthy_ids_def)

lemma forEach_ids:
  "employeeIdCounts (forEach_row e i rows acc) =
     fold count_id (truthy_ids rows) (employeeIdCounts acc)"
proof (induction rows arbitrary: i acc)
  case Nil
  show ?case by (simp add: truthy_ids_def)
next
  case (Cons r rows)
  show ?case
    by (simp add: Cons.IH processRow_ids truthy_ids_Cons [of r rows])
qed

section \<open>The fields of the result\<close>

lemma analyze_empty: "analyzeCensusData e [] = empty_result"
  by (simp add: analyzeCensusData_def)

lemma analyze_overall:
  "rows \<noteq> [] \<Longrightarrow> overallScore (analyzeCensusData e rows) =
     Math_round (weightedScore (fl e) (completeness_of e rows) (consistency_of e rows)
                   (eligibility_of e rows) (eoiRisk_of e rows))"
  by (simp add: analyzeCensusData_def Let_def forEach_missingSalary forEach_missingDob
      forEach_volOverMax forEach_zeroSalary forEach_waiting_from forEach_ineligibleDep
      forEach_exceedsGI initial_counters_def completeness_of_def consistency_of_def
      eligibility_of_def eoiRisk_of_def n_waiting_def)

lemma analyze_subscores:
  "rows \<noteq> [] \<Longrightarrow>
     score (completeness (subScores (analyzeCensusData e rows))) = Math_round (completeness_of e rows) \<and>
     score (consistency (subScores (analyzeCensusData e rows))) = Math_round (consistency_of e rows) \<and>
     score (eligibility (subScores (analyzeCensusData e rows))) = Math_round (eligibility_of e rows) \<and>
     score (eoiRisk (subScores (analyzeCensusData e rows))) = Math_round (eoiRisk_of e rows)"
  by (simp add: analyzeCensusData_def Let_def forEach_missingSalary forEach_missingDob
      forEach_volOverMax forEach_zeroSalary forEach_waiting_from forEach_ineligibleDep
      forEach_exceedsGI initial_counters_def completeness_of_def consistency_of_def
      eligibility_of_def eoiRisk_of_def n_waiting_def)

lemma analyze_riskLevel:
  "rows \<noteq> [] \<Longrightarrow> riskLevel (analyzeCensusData e rows) =
     riskLevel_of (overallScore (analyzeCensusData e rows))"
  by (simp add: analyzeCensusData_def Let_def)


lemma analyze_actions:
  "rows \<noteq> [] \<Longrightarrow> recommendedActions (analyzeCensusData e rows) =
     actions_of (n_missingSalary e rows) (n_exceedsGI e rows) (duplicateIdCount e rows)
       (n_volOverMax e rows)"
  by (simp add: analyzeCensusData_def Let_def forEach_missingSalary
      forEach_volOverMax forEach_exceedsGI initial_counters_def duplicateIdCount_def)

section \<open>Rounding\<close>

text \<open>
  Consequences of \<open>ieee_rounding\<close>: monotonicity, exactness on integers, and error
  bounds in the range of magnitudes that the scores take.
\<close>

lemma ieee_rounding_exact: "ieee_rounding (\<lambda>x. x)"
  by (simp add: ieee_rounding_def)

lemma rd_mono: "ieee_rounding rd \<Longrightarrow> x \<le> y \<Longrightarrow> rd x \<le> rd y"
  by (simp add: ieee_rounding_def)

lemma rd_int: "ieee_rounding rd \<Longrightarrow> \<bar>k\<bar> \<le> 2 ^ 53 \<Longrightarrow> rd (real_of_int k) = real_of_int k"
  by (simp add: ieee_rounding_def)

lemma rd_zero: "ieee_rounding rd \<Longrightarrow> rd 0 = 0"
  using rd_int [of rd 0] by simp

lemma rd_nat: "ieee_rounding rd \<Longrightarrow> n \<le> 2 ^ 53 \<Longrightarrow> rd (real n) = real n"
  using rd_int [of rd "int n"] by simp

lemma rd_nonneg: "ieee_rounding rd \<Longrightarrow> 0 \<le> x \<Longrightarrow> 0 \<le> rd x"
  using rd_mono [of rd 0 x] by (simp add: rd_zero)

lemma rd_rel:
  "ieee_rounding rd \<Longrightarrow> 1 / 2 ^ 1022 \<le> \<bar>x\<bar> \<Longrightarrow> \<bar>x\<bar> \<le> 2 ^ 1023 \<Longrightarrow>
     \<bar>rd x - x\<bar> \<le> \<bar>x\<bar> / 2 ^ 53"
  by (simp add: ieee_rounding_def)

lemma tiny_bound: "(1::real) / 2 ^ 1022 \<le> 1 / 1000000"
  by simp

lemma huge_bound: "(1000000::real) \<le> 2 ^ 1023"
  by simp

lemma eps_bound: "(1::real) / 2 ^ 53 \<le> 1 / 1000000000"
  by simp

lemma rd_close:
  assumes R: "ieee_rounding rd" and lo: "1 / 1000000 \<le> b" and hi: "b \<le> 1000000"
  shows "\<bar>rd b - b\<bar> \<le> b / 1000000000"
proof -
  have pos: "0 < b" using lo by (simp add: less_le_trans [of 0 "1 / 1000000" b])
  have "1 / 2 ^ 1022 \<le> \<bar>b\<bar>" using lo pos tiny_bound by linarith
  moreover have "\<bar>b\<bar> \<le> 2 ^ 1023" using hi pos huge_bound by linarith
  ultimately have "\<bar>rd b - b\<bar> \<le> \<bar>b\<bar> / 2 ^ 53" by (rule rd_rel [OF R])
  also have "\<dots> = b * (1 / 2 ^ 53)" using pos by simp
  also have "\<dots> \<le> b * (1 / 1000000000)"
    using pos eps_bound by (intro mult_left_mono) simp_all
  finally show ?thesis by simp
qed

lemma rd_upper:
  assumes R: "ieee_rounding rd" and "x \<le> b" and lo: "1 / 1000000 \<le> b" and hi: "b \<le> 1000000"
    and "b + b / 1000000000 \<le> b'"
  shows "rd x \<le> b'"
proof -
  have "rd x \<le> rd b" using R assms(2) by (rule rd_mono)
  moreover have "rd b \<le> b + b / 1000000000" using rd_close [OF R lo hi] by linarith
  ultimately show ?thesis using assms(5) by linarith
qed

lemma rd_lower:
  assumes R: "ieee_rounding rd" and "a \<le> x" and lo: "1 / 1000000 \<le> a" and hi: "a \<le> 1000000"
    and "a' \<le> a - a / 1000000000"
  shows "a' \<le> rd x"
proof -
  have "rd a \<le> rd x" using R assms(2) by (rule rd_mono)
  moreover have "a - a / 1000000000 \<le> rd a" using rd_close [OF R lo hi] by linarith
  ultimately show ?thesis using assms(5) by linarith
qed

lemma rd_abs:
  assumes R: "ieee_rounding rd" and lo: "1 / 1000000 \<le> y" and hi: "y \<le> 1000"
  shows "\<bar>rd y - y\<bar> \<le> 1 / 1000000"
proof -
  have "y \<le> 1000000" using hi by simp
  then have "\<bar>rd y - y\<bar> \<le> y / 1000000000" by (rule rd_close [OF R lo])
  also have "\<dots> \<le> 1000 / 1000000000" using hi by (intro divide_right_mono) simp_all
  finally show ?thesis by simp
qed

lemma rd_near:
  assumes R: "ieee_rounding rd" and "1 / 1000000 \<le> y" "y \<le> 1000"
  shows "y - 1 / 1000000 \<le> rd y" "rd y \<le> y + 1 / 1000000"
  using rd_abs [OF assms] by linarith+

lemma rd_exact_values:
  assumes R: "ieee_rounding rd"
  shows "rd 0 = 0" "rd 300000 = 300000" "rd 200000 = 200000" "rd 1 = 1"
  using rd_int [OF R, of 0] rd_int [OF R, of 300000] rd_int [OF R, of 200000]
    rd_int [OF R, of 1]
  by simp_all

section \<open>Bounds and monotonicity of the scores\<close>

lemma clamp100_range: "0 \<le> clamp100 x \<and> clamp100 x \<le> 100"
  by (simp add: clamp100_def)

lemma clamp100_mono: "x \<le> y \<Longrightarrow> clamp100 x \<le> clamp100 y"
  by (simp add: clamp100_def min_def max_def)

lemma Math_round_range: "0 \<le> x \<Longrightarrow> x \<le> 100 \<Longrightarrow> 0 \<le> Math_round x \<and> Math_round x \<le> 100"
  by (simp add: Math_round_def)

lemma Math_round_mono: "x \<le> y \<Longrightarrow> Math_round x \<le> Math_round y"
  by (simp add: Math_round_def floor_mono)

lemma Math_round_int: "Math_round (real_of_int k) = k"
  by (simp add: Math_round_def)

lemma Math_round_eq: "real_of_int k - 1 / 2 \<le> x \<Longrightarrow> x < real_of_int k + 1 / 2 \<Longrightarrow> Math_round x = k"
  unfolding Math_round_def by (rule floor_unique) linarith+

lemma Math_round_numeral: "Math_round 100 = 100" "Math_round 95 = 95" "Math_round 94 = 94"
  "Math_round 86 = 86" "Math_round 88 = 88" "Math_round 79 = 79" "Math_round 81 = 81"
  "Math_round 91 = 91"
  by (simp_all add: Math_round_def)

lemma completenessScore_range:
  "0 \<le> completenessScore rd n m d \<and> completenessScore rd n m d \<le> 100"
  by (simp add: completenessScore_def Let_def clamp100_range)

lemma consistencyScore_range:
  "0 \<le> consistencyScore rd n v z \<and> consistencyScore rd n v z \<le> 100"
  by (simp add: consistencyScore_def Let_def clamp100_range)

lemma eligibilityScore_range:
  "0 \<le> eligibilityScore w d \<and> eligibilityScore w d \<le> 100"
  by (simp add: eligibilityScore_def Let_def clamp100_range)

lemma eoiScore_range:
  "0 \<le> eoiScore rd n g m \<and> eoiScore rd n g m \<le> 100"
  by (simp add: eoiScore_def Let_def clamp100_range)

lemma scores_of_range:
  "0 \<le> completeness_of e rows \<and> completeness_of e rows \<le> 100"
  "0 \<le> consistency_of e rows \<and> consistency_of e rows \<le> 100"
  "0 \<le> eligibility_of e rows \<and> eligibility_of e rows \<le> 100"
  "0 \<le> eoiRisk_of e rows \<and> eoiRisk_of e rows \<le> 100"
  by (simp_all only: completeness_of_def consistency_of_def eligibility_of_def eoiRisk_of_def
      completenessScore_range consistencyScore_range eligibilityScore_range eoiScore_range
      simp_thms)

text \<open>
  The weighted sum of four values between 0 and 100 stays between 0 and 100.2 whatever
  the rounding errors, so its \<open>Math.round\<close> is at most 100.
\<close>

lemma weight_consts:
  assumes R: "ieee_rounding rd"
  shows "0 \<le> rd (30 / 100)" "rd (30 / 100) \<le> 3001 / 10000"
    "0 \<le> rd (25 / 100)" "rd (25 / 100) \<le> 2501 / 10000"
    "0 \<le> rd (20 / 100)" "rd (20 / 100) \<le> 2001 / 10000"
proof -
  show "0 \<le> rd (30 / 100)" by (rule rd_nonneg [OF R]) simp
  show "0 \<le> rd (25 / 100)" by (rule rd_nonneg [OF R]) simp
  show "0 \<le> rd (20 / 100)" by (rule rd_nonneg [OF R]) simp
  show "rd (30 / 100) \<le> 3001 / 10000"
    by (rule rd_upper [OF R, where b = "30 / 100"]) simp_all
  show "rd (25 / 100) \<le> 2501 / 10000"
    by (rule rd_upper [OF R, where b = "25 / 100"]) simp_all
  show "rd (20 / 100) \<le> 2001 / 10000"
    by (rule rd_upper [OF R, where b = "20 / 100"]) simp_all
qed

lemma rd_product_range:
  assumes R: "ieee_rounding rd" and x: "0 \<le> x" "x \<le> 100" and w: "0 \<le> w" "w \<le> u"
    and b: "1 / 1000000 \<le> 100 * u" "100 * u \<le> 1000000" "100 * u + 100 * u / 1000000000 \<le> b'"
  shows "0 \<le> rd (x * w) \<and> rd (x * w) \<le> b'"
proof
  show "0 \<le> rd (x * w)" using x w by (intro rd_nonneg [OF R]) simp
  have "x * w \<le> 100 * u" using x w by (intro mult_mono) simp_all
  then show "rd (x * w) \<le> b'" using b by (rule rd_upper [OF R])
qed

lemma rd_sum_range:
  assumes R: "ieee_rounding rd" and x: "0 \<le> x" "x \<le> p" and y: "0 \<le> y" "y \<le> q"
    and b: "1 / 1000000 \<le> p + q" "p + q \<le> 1000000" "(p + q) + (p + q) / 1000000000 \<le> b'"
  shows "0 \<le> rd (x + y) \<and> rd (x + y) \<le> b'"
proof
  show "0 \<le> rd (x + y)" using x y by (intro rd_nonneg [OF R]) simp
  have "x + y \<le> p + q" using x y by simp
  then show "rd (x + y) \<le> b'" using b by (rule rd_upper [OF R])
qed

lemma weightedScore_range:
  assumes R: "ieee_rounding rd"
    and c: "0 \<le> cmpl" "cmpl \<le> 100" and s: "0 \<le> cons" "cons \<le> 100"
    and g: "0 \<le> elig" "elig \<le> 100" and o: "0 \<le> eoi" "eoi \<le> 100"
  shows "0 \<le> weightedScore rd cmpl cons elig eoi \<and> weightedScore rd cmpl cons elig eoi \<le> 1002 / 10"
proof -
  note k = weight_consts [OF R]
  have t1: "0 \<le> rd (cmpl * rd (30 / 100)) \<and> rd (cmpl * rd (30 / 100)) \<le> 3002 / 100"
    by (rule rd_product_range [OF R c k(1) k(2)]) simp_all
  have t2: "0 \<le> rd (cons * rd (25 / 100)) \<and> rd (cons * rd (25 / 100)) \<le> 2502 / 100"
    by (rule rd_product_range [OF R s k(3) k(4)]) simp_all
  have t3: "0 \<le> rd (elig * rd (25 / 100)) \<and> rd (elig * rd (25 / 100)) \<le> 2502 / 100"
    by (rule rd_product_range [OF R g k(3) k(4)]) simp_all
  have t4: "0 \<le> rd (eoi * rd (20 / 100)) \<and> rd (eoi * rd (20 / 100)) \<le> 2002 / 100"
    by (rule rd_product_range [OF R o k(5) k(6)]) simp_all
  have s1: "0 \<le> rd (rd (cmpl * rd (30 / 100)) + rd (cons * rd (25 / 100))) \<and>
    rd (rd (cmpl * rd (30 / 100)) + rd (cons * rd (25 / 100))) \<le> 5505 / 100"
    by (rule rd_sum_range [OF R t1 [THEN conjunct1] t1 [THEN conjunct2]
          t2 [THEN conjunct1] t2 [THEN conjunct2]]) simp_all
  have s2: "0 \<le> rd (rd (rd (cmpl * rd (30 / 100)) + rd (cons * rd (25 / 100)))
                     + rd (elig * rd (25 / 100))) \<and>
    rd (rd (rd (cmpl * rd (30 / 100)) + rd (cons * rd (25 / 100)))
                     + rd (elig * rd (25 / 100))) \<le> 8008 / 100"
    by (rule rd_sum_range [OF R s1 [THEN conjunct1] s1 [THEN conjunct2]
          t3 [THEN conjunct1] t3 [THEN conjunct2]]) simp_all
  show ?thesis
    unfolding weightedScore_def
    by (rule rd_sum_range [OF R s2 [THEN conjunct1] s2 [THEN conjunct2]
          t4 [THEN conjunct1] t4 [THEN conjunct2]]) simp_all
qed

lemma Math_round_weighted_range:
  assumes R: "ieee_rounding rd"
    and c: "0 \<le> cmpl" "cmpl \<le> 100" and s: "0 \<le> cons" "cons \<le> 100"
    and g: "0 \<le> elig" "elig \<le> 100" and o: "0 \<le> eoi" "eoi \<le> 100"
  shows "0 \<le> Math_round (weightedScore rd cmpl cons elig eoi) \<and>
         Math_round (weightedScore rd cmpl cons elig eoi) \<le> 100"
proof -
  have w: "0 \<le> weightedScore rd cmpl cons elig eoi"
    "weightedScore rd cmpl cons elig eoi \<le> 1002 / 10"
    using weightedScore_range [OF assms] by simp_all
  have "0 \<le> Math_round (weightedScore rd cmpl cons elig eoi)"
    using w(1) by (simp add: Math_round_def)
  moreover have "Math_round (weightedScore rd cmpl cons elig eoi) \<le> 100"
    using w(2) by (simp add: Math_round_def)
  ultimately show ?thesis ..
qed

text \<open>
  More missing salaries mean a larger deduction and a density bonus that is not
  larger.
\<close>

lemma density_mono:
  assumes R: "ieee_rounding rd" and "m \<le> m'"
  shows "rd (real (m + d) / real n) \<le> rd (real (m' + d) / real n)"
  using assms(2) by (intro rd_mono [OF R] divide_right_mono) simp_all

lemma compDensityAdj_antimono:
  assumes R: "ieee_rounding rd" and "m \<le> m'"
  shows "compDensityAdj rd n m' d \<le> compDensityAdj rd n m d"
  using density_mono [OF assms, of d n] by (simp add: compDensityAdj_def Let_def)

lemma completenessScore_antimono:
  assumes R: "ieee_rounding rd" and le: "m \<le> m'"
  shows "completenessScore rd n m' d \<le> completenessScore rd n m d"
proof -
  have "real (m * PENALTY_MISSING_SALARY + d * PENALTY_MISSING_DOB)
        \<le> real (m' * PENALTY_MISSING_SALARY + d * PENALTY_MISSING_DOB)"
    using le by (simp add: PENALTY_MISSING_SALARY_def)
  then show ?thesis
    unfolding completenessScore_def Let_def
    using compDensityAdj_antimono [OF assms, of n d]
    by (intro clamp100_mono) linarith
qed

lemma eoiScore_antimono:
  assumes R: "ieee_rounding rd" and le: "m \<le> m'"
  shows "eoiScore rd n g m' \<le> eoiScore rd n g m"
proof -
  have "real (m * PENALTY_EOI_MISSING_SALARY) \<le> real (m' * PENALTY_EOI_MISSING_SALARY)"
    using le by (simp add: PENALTY_EOI_MISSING_SALARY_def)
  then show ?thesis
    unfolding eoiScore_def Let_def
    by (intro clamp100_mono rd_mono [OF R]) linarith
qed

section \<open>The scores at given counts\<close>

text \<open>
  The weighted sum of four values between 1 and 100 is within a thousandth of the
  exact weighted sum, which fixes its \<open>Math.round\<close> when the exact sum is not
  within 0.002 of a tie.
\<close>

lemma rd_weighted_term:
  assumes R: "ieee_rounding rd" and x: "1 \<le> x" "x \<le> 100"
    and w: "1 / 10 \<le> w" "w \<le> 1"
  shows "\<bar>rd (x * rd w) - x * w\<bar> \<le> 2 / 10000"
proof -
  have k: "\<bar>rd w - w\<bar> \<le> 1 / 1000000"
    using w by (intro rd_abs [OF R]) simp_all
  have "\<bar>x * rd w - x * w\<bar> = x * \<bar>rd w - w\<bar>"
    using x by (simp add: abs_mult right_diff_distrib [symmetric])
  also have "\<dots> \<le> 100 * (1 / 1000000)"
    using x k by (intro mult_mono) simp_all
  finally have d: "\<bar>x * rd w - x * w\<bar> \<le> 1 / 10000" by simp
  have "1 * (1 / 10) \<le> x * w" using x w by (intro mult_mono) simp_all
  moreover have "x * w \<le> 100 * 1" using x w by (intro mult_mono) simp_all
  ultimately have "1 / 1000000 \<le> x * rd w" "x * rd w \<le> 1000" using d by linarith+
  then have "\<bar>rd (x * rd w) - x * rd w\<bar> \<le> 1 / 1000000" by (rule rd_abs [OF R])
  then show ?thesis using d by linarith
qed

lemma rd_sum_abs:
  assumes R: "ieee_rounding rd" and "1 / 10 \<le> x" "x \<le> 400" "1 / 10 \<le> y" "y \<le> 400"
  shows "\<bar>rd (x + y) - (x + y)\<bar> \<le> 1 / 1000000"
  using assms(2-) by (intro rd_abs [OF R]) simp_all

lemma weightedScore_approx:
  assumes R: "ieee_rounding rd"
    and c: "1 \<le> cmpl" "cmpl \<le> 100" and s: "1 \<le> cons" "cons \<le> 100"
    and g: "1 \<le> elig" "elig \<le> 100" and o: "1 \<le> eoi" "eoi \<le> 100"
  shows "\<bar>weightedScore rd cmpl cons elig eoi
          - (cmpl * (30 / 100) + cons * (25 / 100) + elig * (25 / 100) + eoi * (20 / 100))\<bar>
         \<le> 1 / 1000"
proof -
  define p1 where "p1 = rd (cmpl * rd (30 / 100))"
  define p2 where "p2 = rd (cons * rd (25 / 100))"
  define p3 where "p3 = rd (elig * rd (25 / 100))"
  define p4 where "p4 = rd (eoi * rd (20 / 100))"
  define s1 where "s1 = rd (p1 + p2)"
  define s2 where "s2 = rd (s1 + p3)"
  have e1: "\<bar>p1 - cmpl * (30 / 100)\<bar> \<le> 2 / 10000"
    unfolding p1_def by (rule rd_weighted_term [OF R c]) simp_all
  have e2: "\<bar>p2 - cons * (25 / 100)\<bar> \<le> 2 / 10000"
    unfolding p2_def by (rule rd_weighted_term [OF R s]) simp_all
  have e3: "\<bar>p3 - elig * (25 / 100)\<bar> \<le> 2 / 10000"
    unfolding p3_def by (rule rd_weighted_term [OF R g]) simp_all
  have e4: "\<bar>p4 - eoi * (20 / 100)\<bar> \<le> 2 / 10000"
    unfolding p4_def by (rule rd_weighted_term [OF R o]) simp_all
  have f1: "\<bar>s1 - (p1 + p2)\<bar> \<le> 1 / 1000000"
    unfolding s1_def using e1 e2 c s by (intro rd_sum_abs [OF R]) linarith+
  have f2: "\<bar>s2 - (s1 + p3)\<bar> \<le> 1 / 1000000"
    unfolding s2_def using e1 e2 e3 f1 c s g by (intro rd_sum_abs [OF R]) linarith+
  have f3: "\<bar>rd (s2 + p4) - (s2 + p4)\<bar> \<le> 1 / 1000000"
    using e1 e2 e3 e4 f1 f2 c s g o by (intro rd_sum_abs [OF R]) linarith+
  have "weightedScore rd cmpl cons elig eoi = rd (s2 + p4)"
    by (simp add: weightedScore_def p1_def p2_def p3_def p4_def s1_def s2_def)
  then show ?thesis using e1 e2 e3 e4 f1 f2 f3 by linarith
qed

lemma overall_of_bounds:
  assumes R: "ieee_rounding rd"
    and c: "1 \<le> cmpl" "cmpl \<le> 100" and s: "1 \<le> cons" "cons \<le> 100"
    and g: "1 \<le> elig" "elig \<le> 100" and o: "1 \<le> eoi" "eoi \<le> 100"
    and lo: "real_of_int k - 499 / 1000
               \<le> cmpl * (30 / 100) + cons * (25 / 100) + elig * (25 / 100) + eoi * (20 / 100)"
    and hi: "cmpl * (30 / 100) + cons * (25 / 100) + elig * (25 / 100) + eoi * (20 / 100)
               \<le> real_of_int k + 498 / 1000"
  shows "Math_round (weightedScore rd cmpl cons elig eoi) = k"
  using weightedScore_approx [OF R c s g o] lo hi
  by (intro Math_round_eq) linarith+

lemma overall_86_100_100_94:
  "ieee_rounding rd \<Longrightarrow> Math_round (weightedScore rd 86 100 100 94) = 95"
  by (rule overall_of_bounds) simp_all

lemma overall_88_79_100_47:
  "ieee_rounding rd \<Longrightarrow> Math_round (weightedScore rd 88 79 100 47) = 81"
  by (rule overall_of_bounds) simp_all

text \<open>
  An error density of 30 percent or more is above both thresholds of the density
  adjustments.
\<close>

lemma compDensityAdj_dense:
  assumes R: "ieee_rounding rd" and "3 * real n \<le> 10 * real (m + d)" "m + d \<le> n" "0 < n"
  shows "compDensityAdj rd n m d = 0"
proof -
  have q: "3 / 10 \<le> real (m + d) / real n" "real (m + d) / real n \<le> 1"
    using assms(2-) by (simp_all add: field_simps)
  have "3 / 10 - 1 / 1000000 \<le> rd (3 / 10)"
    by (rule rd_near [OF R]) simp_all
  moreover have "rd (3 / 10) \<le> rd (real (m + d) / real n)"
    using q(1) by (rule rd_mono [OF R])
  moreover have "rd (5 / 100) \<le> 5 / 100 + 1 / 1000000"
    by (rule rd_near [OF R]) simp_all
  moreover have "rd (10 / 100) \<le> 10 / 100 + 1 / 1000000"
    by (rule rd_near [OF R]) simp_all
  ultimately have "\<not> rd (real (m + d) / real n) \<le> rd (5 / 100)"
    "\<not> rd (real (m + d) / real n) \<le> rd (10 / 100)" by linarith+
  then show ?thesis by (simp add: compDensityAdj_def Let_def)
qed

lemma consDensityAdj_dense:
  assumes R: "ieee_rounding rd" and "3 * real n \<le> 10 * real (v + z)" "0 < n"
  shows "consDensityAdj rd n v z = - 15"
proof -
  have q: "3 / 10 \<le> real (v + z) / real n"
    using assms(2-) by (simp_all add: field_simps)
  have "3 / 10 - 1 / 1000000 \<le> rd (3 / 10)"
    by (rule rd_near [OF R]) simp_all
  moreover have "rd (3 / 10) \<le> rd (real (v + z) / real n)"
    using q(1) by (rule rd_mono [OF R])
  moreover have "rd (5 / 100) \<le> 5 / 100 + 1 / 1000000"
    by (rule rd_near [OF R]) simp_all
  ultimately have "\<not> rd (real (v + z) / real n) \<le> rd (5 / 100)" by linarith
  moreover have "0 < v + z" using assms(2,3) by (cases "v + z") simp_all
  ultimately show ?thesis by (simp add: consDensityAdj_def Let_def)
qed

lemma consDensityAdj_none: "consDensityAdj rd n 0 0 = 0"
  by (simp add: consDensityAdj_def)

lemma eligibilityScore_values: "eligibilityScore 0 0 = 100" "eligibilityScore (Suc 0) 0 = 95"
  by (simp_all add: eligibilityScore_def clamp100_def PENALTY_WAITING_PERIOD_def
      PENALTY_INELIGIBLE_DEP_def)

lemma eoiScore_no_gi:
  assumes R: "ieee_rounding rd" and "m \<le> 33"
  shows "eoiScore rd n 0 m = 100 - 3 * real m"
proof -
  have z: "rd 0 = 0" by (rule rd_zero [OF R])
  have h: "rd 100 = 100" using rd_int [OF R, of 100] by simp
  have "rd (real_of_int (100 - 3 * int m)) = real_of_int (100 - 3 * int m)"
    using assms(2) by (intro rd_int [OF R]) simp
  then have "rd (100 - 3 * real m) = 100 - 3 * real m" by simp
  then show ?thesis
    using assms(2)
    by (simp add: eoiScore_def eoiRatePercent_def Let_def z h PENALTY_EOI_MISSING_SALARY_def
        clamp100_def mult.commute)
qed

text \<open>
  With two of three rows above the GI limit the EOI-Risk value is near 46.67.
\<close>

lemma eoiScore_two_of_three:
  assumes R: "ieee_rounding rd"
  shows "4666 / 100 \<le> eoiScore rd 3 2 0 \<and> eoiScore rd 3 2 0 \<le> 4667 / 100"
proof -
  define q where "q = rd (2 / 3)"
  define r where "r = rd (q * 100)"
  define k where "k = rd (8 / 10)"
  define t where "t = rd (r * k)"
  define u where "u = rd (100 - t)"
  define v where "v = rd u"
  have q: "2 / 3 - 1 / 1000000 \<le> q" "q \<le> 2 / 3 + 1 / 1000000"
    unfolding q_def by (rule rd_near [OF R]; simp)+
  have r: "q * 100 - 1 / 1000000 \<le> r" "r \<le> q * 100 + 1 / 1000000"
    unfolding r_def using q by (intro rd_near [OF R]; linarith)+
  have k: "8 / 10 - 1 / 1000000 \<le> k" "k \<le> 8 / 10 + 1 / 1000000"
    unfolding k_def by (rule rd_near [OF R]; simp)+
  have rb: "66666 / 1000 \<le> r" "r \<le> 66667 / 1000" using q r by linarith+
  have kb: "799999 / 1000000 \<le> k" "k \<le> 800001 / 1000000" using k by linarith+
  have "(66666 / 1000) * (799999 / 1000000) \<le> r * k"
    using rb kb by (intro mult_mono) simp_all
  moreover have "r * k \<le> (66667 / 1000) * (800001 / 1000000)"
    using rb kb by (intro mult_mono) linarith+
  ultimately have rk: "53332 / 1000 \<le> r * k" "r * k \<le> 53334 / 1000" by simp_all
  have t: "r * k - 1 / 1000000 \<le> t" "t \<le> r * k + 1 / 1000000"
    unfolding t_def using rk by (intro rd_near [OF R]; linarith)+
  have u: "100 - t - 1 / 1000000 \<le> u" "u \<le> 100 - t + 1 / 1000000"
    unfolding u_def using rk t by (intro rd_near [OF R]; linarith)+
  have v: "u - 1 / 1000000 \<le> v" "v \<le> u + 1 / 1000000"
    unfolding v_def using rk t u by (intro rd_near [OF R]; linarith)+
  have vb: "4666 / 100 \<le> v" "v \<le> 4667 / 100" using rk t u v by linarith+
  have "eoiScore rd 3 2 0 = clamp100 v"
    by (simp add: eoiScore_def eoiRatePercent_def Let_def q_def r_def k_def t_def u_def v_def)
  then show ?thesis using vb by (simp add: clamp100_def)
qed

lemma overall_88_79_100_two_thirds:
  assumes R: "ieee_rounding rd"
  shows "Math_round (weightedScore rd 88 79 100 (eoiScore rd 3 2 0)) = 80"
  using eoiScore_two_of_three [OF R, THEN conjunct1] eoiScore_two_of_three [OF R, THEN conjunct2]
  by (intro overall_of_bounds [OF R]) simp_all

lemma round_two_thirds:
  assumes R: "ieee_rounding rd"
  shows "Math_round (eoiScore rd 3 2 0) = 47"
  using eoiScore_two_of_three [OF R, THEN conjunct1] eoiScore_two_of_three [OF R, THEN conjunct2]
  by (intro Math_round_eq) simp_all

text \<open>
  The same bounds for values from 0 on: below the normal range a rounded value stays
  between 0 and the rounding of a small bound. A value lies between \<open>Math.round\<close> of
  it minus a half and plus a half, the upper end excluded.
\<close>

lemma rd_abs0:
  assumes R: "ieee_rounding rd" and lo: "0 \<le> y" and hi: "y \<le> 1000"
  shows "\<bar>rd y - y\<bar> \<le> 1 / 100000"
proof (cases "1 / 1000000 \<le> y")
  case True
  then have "\<bar>rd y - y\<bar> \<le> 1 / 1000000" using hi by (rule rd_abs [OF R])
  then show ?thesis by linarith
next
  case False
  have "0 \<le> rd y" using R lo by (rule rd_nonneg)
  moreover have "rd y \<le> rd (1 / 1000000)" using False by (intro rd_mono [OF R]) linarith
  moreover have "rd (1 / 1000000) \<le> 1 / 1000000 + 1 / 1000000"
    by (rule rd_near [OF R]) simp_all
  ultimately show ?thesis using False lo by linarith
qed

lemma rd_weighted_term0:
  assumes R: "ieee_rounding rd" and x: "0 \<le> x" "x \<le> 100"
    and w: "1 / 10 \<le> w" "w \<le> 1"
  shows "\<bar>rd (x * rd w) - x * w\<bar> \<le> 2 / 10000"
proof -
  have k: "\<bar>rd w - w\<bar> \<le> 1 / 1000000"
    using w by (intro rd_abs [OF R]) simp_all
  have "\<bar>x * rd w - x * w\<bar> = x * \<bar>rd w - w\<bar>"
    using x by (simp add: abs_mult right_diff_distrib [symmetric])
  also have "\<dots> \<le> 100 * (1 / 1000000)"
    using x k by (intro mult_mono) simp_all
  finally have d: "\<bar>x * rd w - x * w\<bar> \<le> 1 / 10000" by simp
  have "0 \<le> rd w" using w by (intro rd_nonneg [OF R]) simp
  then have a: "0 \<le> x * rd w" using x by simp
  have "x * w \<le> 100 * 1" using x w by (intro mult_mono) simp_all
  then have b: "x * rd w \<le> 1000" using d by linarith
  from a b have "\<bar>rd (x * rd w) - x * rd w\<bar> \<le> 1 / 100000" by (rule rd_abs0 [OF R])
  then show ?thesis using d by linarith
qed

lemma rd_sum_abs0:
  assumes R: "ieee_rounding rd" and "0 \<le> x" "x \<le> 400" "0 \<le> y" "y \<le> 400"
  shows "\<bar>rd (x + y) - (x + y)\<bar> \<le> 1 / 100000"
  using assms(2-) by (intro rd_abs0 [OF R]) linarith+

lemma weightedScore_approx0:
  assumes R: "ieee_rounding rd"
    and c: "0 \<le> cmpl" "cmpl \<le> 100" and s: "0 \<le> cons" "cons \<le> 100"
    and g: "0 \<le> elig" "elig \<le> 100" and o: "0 \<le> eoi" "eoi \<le> 100"
  shows "\<bar>weightedScore rd cmpl cons elig eoi
          - (cmpl * (30 / 100) + cons * (25 / 100) + elig * (25 / 100) + eoi * (20 / 100))\<bar>
         \<le> 1 / 1000"
proof -
  define p1 where "p1 = rd (cmpl * rd (30 / 100))"
  define p2 where "p2 = rd (cons * rd (25 / 100))"
  define p3 where "p3 = rd (elig * rd (25 / 100))"
  define p4 where "p4 = rd (eoi * rd (20 / 100))"
  define s1 where "s1 = rd (p1 + p2)"
  define s2 where "s2 = rd (s1 + p3)"
  note k = weight_consts [OF R]
  have n1: "0 \<le> p1" unfolding p1_def using c k(1) by (intro rd_nonneg [OF R]) simp
  have n2: "0 \<le> p2" unfolding p2_def using s k(3) by (intro rd_nonneg [OF R]) simp
  have n3: "0 \<le> p3" unfolding p3_def using g k(3) by (intro rd_nonneg [OF R]) simp
  have n4: "0 \<le> p4" unfolding p4_def using o k(5) by (intro rd_nonneg [OF R]) simp
  have e1: "\<bar>p1 - cmpl * (30 / 100)\<bar> \<le> 2 / 10000"
    unfolding p1_def by (rule rd_weighted_term0 [OF R c]) simp_all
  have e2: "\<bar>p2 - cons * (25 / 100)\<bar> \<le> 2 / 10000"
    unfolding p2_def by (rule rd_weighted_term0 [OF R s]) simp_all
  have e3: "\<bar>p3 - elig * (25 / 100)\<bar> \<le> 2 / 10000"
    unfolding p3_def by (rule rd_weighted_term0 [OF R g]) simp_all
  have e4: "\<bar>p4 - eoi * (20 / 100)\<bar> \<le> 2 / 10000"
    unfolding p4_def by (rule rd_weighted_term0 [OF R o]) simp_all
  have m1: "0 \<le> s1" unfolding s1_def using n1 n2 by (intro rd_nonneg [OF R]) simp
  have m2: "0 \<le> s2" unfolding s2_def using m1 n3 by (intro rd_nonneg [OF R]) simp
  have f1: "\<bar>s1 - (p1 + p2)\<bar> \<le> 1 / 100000"
    unfolding s1_def using e1 e2 c s n1 n2 by (intro rd_sum_abs0 [OF R]) linarith+
  have f2: "\<bar>s2 - (s1 + p3)\<bar> \<le> 1 / 100000"
    unfolding s2_def using e1 e2 e3 f1 c s g m1 n3 by (intro rd_sum_abs0 [OF R]) linarith+
  have f3: "\<bar>rd (s2 + p4) - (s2 + p4)\<bar> \<le> 1 / 100000"
    using e1 e2 e3 e4 f1 f2 c s g o m2 n4 by (intro rd_sum_abs0 [OF R]) linarith+
  have "weightedScore rd cmpl cons elig eoi = rd (s2 + p4)"
    by (simp add: weightedScore_def p1_def p2_def p3_def p4_def s1_def s2_def)
  then show ?thesis using e1 e2 e3 e4 f1 f2 f3 by linarith
qed

lemma overall_of_bounds0:
  assumes R: "ieee_rounding rd"
    and c: "0 \<le> cmpl" "cmpl \<le> 100" and s: "0 \<le> cons" "cons \<le> 100"
    and g: "0 \<le> elig" "elig \<le> 100" and o: "0 \<le> eoi" "eoi \<le> 100"
    and lo: "real_of_int k - 499 / 1000
               \<le> cmpl * (30 / 100) + cons * (25 / 100) + elig * (25 / 100) + eoi * (20 / 100)"
    and hi: "cmpl * (30 / 100) + cons * (25 / 100) + elig * (25 / 100) + eoi * (20 / 100)
               \<le> real_of_int k + 498 / 1000"
  shows "Math_round (weightedScore rd cmpl cons elig eoi) = k"
  using weightedScore_approx0 [OF R c s g o] lo hi
  by (intro Math_round_eq) linarith+

lemma overall_0_100_100_64:
  "ieee_rounding rd \<Longrightarrow> Math_round (weightedScore rd 0 100 100 64) = 63"
  by (rule overall_of_bounds0) simp_all

lemma Math_round_bounds:
  "real_of_int (Math_round x) \<le> x + 1 / 2 \<and> x + 1 / 2 < real_of_int (Math_round x) + 1"
  unfolding Math_round_def by linarith

lemma compDensityAdj_over:
  assumes R: "ieee_rounding rd" and "3 * real n \<le> 10 * real (m + d)" "0 < n"
  shows "compDensityAdj rd n m d = 0"
proof -
  have q: "3 / 10 \<le> real (m + d) / real n"
    using assms(2-) by (simp_all add: field_simps)
  have "3 / 10 - 1 / 1000000 \<le> rd (3 / 10)"
    by (rule rd_near [OF R]) simp_all
  moreover have "rd (3 / 10) \<le> rd (real (m + d) / real n)"
    using q by (rule rd_mono [OF R])
  moreover have "rd (5 / 100) \<le> 5 / 100 + 1 / 1000000"
    by (rule rd_near [OF R]) simp_all
  moreover have "rd (10 / 100) \<le> 10 / 100 + 1 / 1000000"
    by (rule rd_near [OF R]) simp_all
  ultimately have "\<not> rd (real (m + d) / real n) \<le> rd (5 / 100)"
    "\<not> rd (real (m + d) / real n) \<le> rd (10 / 100)" by linarith+
  then show ?thesis by (simp add: compDensityAdj_def Let_def)
qed

lemma round_unique:
  "real_of_int k \<le> x + 1 / 2 \<Longrightarrow> x + 1 / 2 < real_of_int k + 1 \<Longrightarrow> k = \<lfloor>x + 1 / 2\<rfloor>"
  by (rule floor_unique [symmetric])

section \<open>The rows of the examples in the concrete environment\<close>

lemmas parse_eval =
  replace_non_money_filter money_char_def decimal_parseFloat_def is_space_def
  unsigned_decimal_def is_digit_def digits_val_def digit_val_def exponent_part_def scale10_def
  iso_Date_parse_def days_in_month_def days_from_civil_def is_leap_def
  Math_ceil_def

lemmas row_eval =
  salary_of_def volMult_of_def basicCov_of_def hasSalary_def dobMissing_def volOverMax_def
  zeroSalaryCov_def inWaitingPeriod_def totalVolume_def exceedsGI_def getDaysSince_def
  GI_LIMIT_def PLAN_MAX_VOL_MULTIPLE_def WAITING_PERIOD_DAYS_def to_number_def
  overflow_threshold_def

lemma env_at_simps:
  "Date_parse (env_at t) = iso_Date_parse" "parseFloat (env_at t) = decimal_parseFloat"
  "clock (env_at t) i = t" "fl (env_at t) x = x"
  by (simp_all add: env_at_def)

lemma ieee_rounding_env0: "ieee_rounding (fl env0)"
  by (simp add: env0_def env_at_def ieee_rounding_exact)

lemma clean_row_facts:
  "hasSalary (env_at t) (clean_row k)" "\<not> dobMissing (env_at t) (clean_row k)"
  "\<not> volOverMax (env_at t) (clean_row k)" "\<not> zeroSalaryCov (env_at t) (clean_row k)"
  "\<not> exceedsGI (env_at t) (clean_row k)"
  by (simp_all add: clean_row_def row_eval parse_eval env_at_simps)

lemma clean_row_waiting: "\<not> inWaitingPeriod env0 i (clean_row k)"
  by (simp add: env0_def clean_row_def row_eval parse_eval env_at_simps)

lemma risky_row_facts:
  "\<not> hasSalary env0 risky_row" "\<not> dobMissing env0 risky_row"
  "volOverMax env0 risky_row" "zeroSalaryCov env0 risky_row"
  "exceedsGI env0 risky_row" "inWaitingPeriod env0 i risky_row"
  by (simp_all add: env0_def risky_row_def row_eval parse_eval env_at_simps)

lemma risky_row_late: "\<not> inWaitingPeriod (env_at 1709251200000) i risky_row"
  by (simp add: risky_row_def row_eval parse_eval env_at_simps)

lemma no_salary_row_facts:
  "\<not> hasSalary (env_at t) (no_salary_row k)" "\<not> dobMissing (env_at t) (no_salary_row k)"
  "\<not> volOverMax (env_at t) (no_salary_row k)" "\<not> zeroSalaryCov (env_at t) (no_salary_row k)"
  "\<not> exceedsGI (env_at t) (no_salary_row k)"
  by (simp_all add: no_salary_row_def clean_row_def row_eval parse_eval env_at_simps)

lemma no_salary_row_waiting: "\<not> inWaitingPeriod env0 i (no_salary_row k)"
  by (simp add: env0_def no_salary_row_def clean_row_def row_eval parse_eval env_at_simps)

lemma no_dob_row_facts:
  "hasSalary (env_at t) (no_dob_row k)" "dobMissing (env_at t) (no_dob_row k)"
  "\<not> volOverMax (env_at t) (no_dob_row k)" "\<not> zeroSalaryCov (env_at t) (no_dob_row k)"
  "\<not> exceedsGI (env_at t) (no_dob_row k)"
  by (simp_all add: no_dob_row_def clean_row_def row_eval parse_eval env_at_simps)

lemma no_dob_row_waiting: "\<not> inWaitingPeriod env0 i (no_dob_row k)"
  by (simp add: env0_def no_dob_row_def clean_row_def row_eval parse_eval env_at_simps)

lemma nan_salary_row_facts:
  "\<not> hasSalary (env_at t) (nan_salary_row k)" "\<not> dobMissing (env_at t) (nan_salary_row k)"
  "\<not> volOverMax (env_at t) (nan_salary_row k)" "\<not> zeroSalaryCov (env_at t) (nan_salary_row k)"
  "\<not> exceedsGI (env_at t) (nan_salary_row k)" "\<not> salary_le_zero (env_at t) (nan_salary_row k)"
  by (simp_all add: nan_salary_row_def clean_row_def row_eval parse_eval env_at_simps
      salary_le_zero_def)

lemma nan_salary_row_waiting: "\<not> inWaitingPeriod env0 i (nan_salary_row k)"
  by (simp add: env0_def nan_salary_row_def clean_row_def row_eval parse_eval env_at_simps)

lemma salary_le_zero_facts:
  "salary_le_zero (env_at t) (no_salary_row k)" "\<not> salary_le_zero (env_at t) (clean_row k)"
  "\<not> salary_le_zero (env_at t) (no_dob_row k)"
  by (simp_all add: salary_le_zero_def no_salary_row_def no_dob_row_def clean_row_def row_eval
      parse_eval env_at_simps)

lemma old_hire_late:
  "\<not> inWaitingPeriod (env_at 1709251200000) i (clean_row k)"
  "\<not> inWaitingPeriod (env_at 1709251200000) i (no_salary_row k)"
  by (simp_all add: no_salary_row_def clean_row_def row_eval parse_eval env_at_simps)

lemmas env0_row_facts =
  clean_row_facts [of 1705276800000, folded env0_def]
  no_salary_row_facts [of 1705276800000, folded env0_def]
  no_dob_row_facts [of 1705276800000, folded env0_def]
  nan_salary_row_facts [of 1705276800000, folded env0_def]
  salary_le_zero_facts [of 1705276800000, folded env0_def]
  clean_row_waiting no_salary_row_waiting no_dob_row_waiting nan_salary_row_waiting


lemma dup_single: "duplicateIdCount e [r] = 0"
  unfolding duplicateIdCount_def forEach_ids
  by (simp add: initial_counters_def truthy_ids_def count_id_def split: option.splits)

section \<open>The range of the scores\<close>

text \<open>
  Claim C1. For every record sequence, the four sub-scores (Completeness, Consistency,
  Eligibility, EOI Risk) and the overall score of the result lie in the interval from 0
  to 100; for the empty input they are all 0. The sub-scores are rounded clamped
  values, so their bound needs nothing of the arithmetic; the bound of the overall
  score uses that the rounding of doubles is monotone and accurate.
\<close>

theorem scores_in_range:
  assumes R: "ieee_rounding (fl e)"
  shows "0 \<le> score (completeness (subScores (analyzeCensusData e rows))) \<and>
         score (completeness (subScores (analyzeCensusData e rows))) \<le> 100 \<and>
         0 \<le> score (consistency (subScores (analyzeCensusData e rows))) \<and>
         score (consistency (subScores (analyzeCensusData e rows))) \<le> 100 \<and>
         0 \<le> score (eligibility (subScores (analyzeCensusData e rows))) \<and>
         score (eligibility (subScores (analyzeCensusData e rows))) \<le> 100 \<and>
         0 \<le> score (eoiRisk (subScores (analyzeCensusData e rows))) \<and>
         score (eoiRisk (subScores (analyzeCensusData e rows))) \<le> 100 \<and>
         0 \<le> overallScore (analyzeCensusData e rows) \<and>
         overallScore (analyzeCensusData e rows) \<le> 100 \<and>
         score (completeness (subScores (analyzeCensusData e []))) = 0 \<and>
         score (consistency (subScores (analyzeCensusData e []))) = 0 \<and>
         score (eligibility (subScores (analyzeCensusData e []))) = 0 \<and>
         score (eoiRisk (subScores (analyzeCensusData e []))) = 0 \<and>
         overallScore (analyzeCensusData e []) = 0"
proof (cases "rows = []")
  case True
  then show ?thesis by (simp add: analyze_empty empty_result_def)
next
  case False
  note s = scores_of_range [of e rows]
  have c: "0 \<le> Math_round (completeness_of e rows) \<and> Math_round (completeness_of e rows) \<le> 100"
    using s(1) by (intro Math_round_range) simp_all
  have k: "0 \<le> Math_round (consistency_of e rows) \<and> Math_round (consistency_of e rows) \<le> 100"
    using s(2) by (intro Math_round_range) simp_all
  have g: "0 \<le> Math_round (eligibility_of e rows) \<and> Math_round (eligibility_of e rows) \<le> 100"
    using s(3) by (intro Math_round_range) simp_all
  have o: "0 \<le> Math_round (eoiRisk_of e rows) \<and> Math_round (eoiRisk_of e rows) \<le> 100"
    using s(4) by (intro Math_round_range) simp_all
  have w: "0 \<le> Math_round (weightedScore (fl e) (completeness_of e rows) (consistency_of e rows)
                   (eligibility_of e rows) (eoiRisk_of e rows)) \<and>
           Math_round (weightedScore (fl e) (completeness_of e rows) (consistency_of e rows)
                   (eligibility_of e rows) (eoiRisk_of e rows)) \<le> 100"
    using s by (intro Math_round_weighted_range [OF R]) simp_all
  show ?thesis
    using c k g o w
    by (simp add: analyze_subscores [OF False] analyze_overall [OF False] analyze_empty
        empty_result_def)
qed

text \<open>The bounds on two rows that trigger every condition, in exact arithmetic.\<close>

theorem scores_in_range_witness:
  "0 \<le> score (completeness (subScores (analyzeCensusData env0 [risky_row, risky_row]))) \<and>
   score (completeness (subScores (analyzeCensusData env0 [risky_row, risky_row]))) \<le> 100 \<and>
   0 \<le> score (consistency (subScores (analyzeCensusData env0 [risky_row, risky_row]))) \<and>
   score (consistency (subScores (analyzeCensusData env0 [risky_row, risky_row]))) \<le> 100 \<and>
   0 \<le> score (eligibility (subScores (analyzeCensusData env0 [risky_row, risky_row]))) \<and>
   score (eligibility (subScores (analyzeCensusData env0 [risky_row, risky_row]))) \<le> 100 \<and>
   0 \<le> score (eoiRisk (subScores (analyzeCensusData env0 [risky_row, risky_row]))) \<and>
   score (eoiRisk (subScores (analyzeCensusData env0 [risky_row, risky_row]))) \<le> 100 \<and>
   0 \<le> overallScore (analyzeCensusData env0 [risky_row, risky_row]) \<and>
   overallScore (analyzeCensusData env0 [risky_row, risky_row]) \<le> 100"
proof -
  have "ieee_rounding (fl env0)"
    by (simp add: env0_def env_at_def ieee_rounding_exact)
  from scores_in_range [OF this, of "[risky_row, risky_row]"] show ?thesis by simp
qed

section \<open>The engine and the clock\<close>

text \<open>
  The engine is a function of its environment and of the rows: it has no error value,
  so it returns a result on every input, and two runs in the same environment on the
  same rows return the same result. The clock is part of the environment, and the
  waiting-period test reads it.
\<close>

lemma env_clock_simps:
  "parseMoney (e\<lparr>clock := c\<rparr>) v = parseMoney e v"
  "parseFloat_of (e\<lparr>clock := c\<rparr>) v = parseFloat_of e v"
  "isValidDate (e\<lparr>clock := c\<rparr>) ds = isValidDate e ds"
proof -
  show "parseMoney (e\<lparr>clock := c\<rparr>) v = parseMoney e v" by (cases v) simp_all
  show "parseFloat_of (e\<lparr>clock := c\<rparr>) v = parseFloat_of e v" by (cases v) simp_all
  show "isValidDate (e\<lparr>clock := c\<rparr>) ds = isValidDate e ds" by (cases ds) simp_all
qed

lemma row_predicates_clock:
  "hasSalary (e\<lparr>clock := c\<rparr>) row = hasSalary e row"
  "dobMissing (e\<lparr>clock := c\<rparr>) row = dobMissing e row"
  "volOverMax (e\<lparr>clock := c\<rparr>) row = volOverMax e row"
  "zeroSalaryCov (e\<lparr>clock := c\<rparr>) row = zeroSalaryCov e row"
  "exceedsGI (e\<lparr>clock := c\<rparr>) row = exceedsGI e row"
  by (simp_all add: hasSalary_def dobMissing_def volOverMax_def zeroSalaryCov_def exceedsGI_def
      totalVolume_def salary_of_def volMult_of_def basicCov_of_def env_clock_simps)

lemma if_nested: "(if p then (if q then a else b) else b) = (if p \<and> q then a else b)"
  by simp

lemma processRow_waiting_form:
  "processRow e i row acc =
     (let acc1 = (if \<not> hasSalary e row
                  then acc\<lparr>missingSalaryCount := missingSalaryCount acc + 1\<rparr> else acc);
          acc2 = (if dobMissing e row
                  then acc1\<lparr>missingDobCount := missingDobCount acc1 + 1\<rparr> else acc1);
          acc3 = (if volOverMax e row
                  then acc2\<lparr>volMultiOverMaxCount := volMultiOverMaxCount acc2 + 1\<rparr> else acc2);
          acc4 = (if zeroSalaryCov e row
                  then acc3\<lparr>zeroSalaryCount := zeroSalaryCount acc3 + 1\<rparr> else acc3);
          acc5 = (if inWaitingPeriod e i row
                  then acc4\<lparr>waitingPeriodCount := waitingPeriodCount acc4 + 1\<rparr> else acc4);
          acc6 = (if exceedsGI e row
                  then acc5\<lparr>employeesExceedingGI := employeesExceedingGI acc5 + 1\<rparr> else acc5)
      in case employeeId row of
           None \<Rightarrow> acc6
         | Some k \<Rightarrow>
             if k = [] then acc6
             else acc6\<lparr>employeeIdCounts := count_id k (employeeIdCounts acc6)\<rparr>)"
  unfolding processRow_def inWaitingPeriod_def if_nested conj_assoc ..

lemma processRow_clock:
  assumes "inWaitingPeriod (e\<lparr>clock := c\<rparr>) i row = inWaitingPeriod e i row"
  shows "processRow (e\<lparr>clock := c\<rparr>) i row acc = processRow e i row acc"
  unfolding processRow_waiting_form assms row_predicates_clock ..

lemma forEach_row_clock:
  assumes "\<forall>j<length rows. inWaitingPeriod (e\<lparr>clock := c\<rparr>) (i + j) (rows ! j)
                              = inWaitingPeriod e (i + j) (rows ! j)"
  shows "forEach_row (e\<lparr>clock := c\<rparr>) i rows acc = forEach_row e i rows acc"
  using assms
proof (induction rows arbitrary: i acc)
  case Nil
  show ?case by simp
next
  case (Cons r rows)
  have head: "inWaitingPeriod (e\<lparr>clock := c\<rparr>) i r = inWaitingPeriod e i r"
    using Cons.prems [rule_format, of 0] by simp
  have tail: "\<forall>j<length rows. inWaitingPeriod (e\<lparr>clock := c\<rparr>) (Suc i + j) (rows ! j)
                              = inWaitingPeriod e (Suc i + j) (rows ! j)"
  proof (intro allI impI)
    fix j assume "j < length rows"
    then show "inWaitingPeriod (e\<lparr>clock := c\<rparr>) (Suc i + j) (rows ! j)
                 = inWaitingPeriod e (Suc i + j) (rows ! j)"
      using Cons.prems [rule_format, of "Suc j"] by simp
  qed
  show ?case
    by (simp add: processRow_clock [OF head] Cons.IH [OF tail])
qed

text \<open>
  Claim C2, amended. The engine never throws, and two runs on the same record
  sequence yield identical results when they read the same clock values. Two runs at
  different moments yield identical results whenever the waiting-period test (hire
  date present, valid and fewer than 30 days from the clock reading) has the same
  outcome for every record in both runs, in particular when no record has a valid
  hire date.
\<close>

theorem clock_independence:
  assumes "\<forall>i<length rows. inWaitingPeriod (e\<lparr>clock := c\<rparr>) i (rows ! i)
                              = inWaitingPeriod e i (rows ! i)"
  shows "analyzeCensusData (e\<lparr>clock := c\<rparr>) rows = analyzeCensusData e rows"
proof -
  have "forEach_row (e\<lparr>clock := c\<rparr>) 0 rows initial_counters
          = forEach_row e 0 rows initial_counters"
    using assms by (intro forEach_row_clock) simp
  moreover have "fl (e\<lparr>clock := c\<rparr>) = fl e" by simp
  ultimately show ?thesis unfolding analyzeCensusData_def by (simp only:)
qed

text \<open>
  In particular the clock is irrelevant when no row has a hire date that is present
  and valid.
\<close>

lemma no_hire_date_no_clock:
  assumes "list_all (\<lambda>r. \<not> (truthy (hireDate r) \<and> isValidDate e (hireDate r))) rows"
  shows "analyzeCensusData (e\<lparr>clock := c\<rparr>) rows = analyzeCensusData e rows"
proof -
  have "\<forall>j<length rows. inWaitingPeriod (e\<lparr>clock := c\<rparr>) (0 + j) (rows ! j)
                              = inWaitingPeriod e (0 + j) (rows ! j)"
    using assms by (auto simp add: list_all_length inWaitingPeriod_def env_clock_simps)
  then have "forEach_row (e\<lparr>clock := c\<rparr>) 0 rows initial_counters
               = forEach_row e 0 rows initial_counters"
    by (rule forEach_row_clock)
  moreover have "fl (e\<lparr>clock := c\<rparr>) = fl e" by simp
  ultimately show ?thesis unfolding analyzeCensusData_def by (simp only:)
qed

text \<open>
  Two rows hired in 2015, on 2024-01-15 and on 2024-03-01: the same result.
\<close>

theorem clock_independence_witness:
  "analyzeCensusData (env_at 1709251200000) [clean_row ''1'', no_salary_row ''2'']
     = analyzeCensusData env0 [clean_row ''1'', no_salary_row ''2'']"
proof -
  let ?rows = "[clean_row ''1'', no_salary_row ''2'']"
  have e: "env0\<lparr>clock := \<lambda>i. 1709251200000\<rparr> = env_at 1709251200000"
    by (simp add: env0_def env_at_def)
  have "\<forall>i<length ?rows. inWaitingPeriod (env0\<lparr>clock := \<lambda>i. 1709251200000\<rparr>) i (?rows ! i)
                              = inWaitingPeriod env0 i (?rows ! i)"
    unfolding e
    by (simp add: less_Suc_eq old_hire_late clean_row_waiting no_salary_row_waiting)
  from clock_independence [OF this] show ?thesis unfolding e .
qed

text \<open>
  Claim C2 says that runs at different moments yield identical results. A row hired
  on 2024-01-10 is in its waiting period on 2024-01-15 and no longer on 2024-03-01:
  Eligibility is 95 in the first run and 100 in the second.
\<close>

theorem clock_dependence_counterexample:
  "score (eligibility (subScores (analyzeCensusData (env_at 1705276800000) [risky_row]))) = 95 \<and>
   score (eligibility (subScores (analyzeCensusData (env_at 1709251200000) [risky_row]))) = 100 \<and>
   analyzeCensusData (env_at 1705276800000) [risky_row]
     \<noteq> analyzeCensusData (env_at 1709251200000) [risky_row]"
proof -
  have a: "n_waiting (env_at 1705276800000) [risky_row] = 1"
    using risky_row_facts(6) [of 0]
    by (simp add: n_waiting_def count_where_def env0_def)
  have b: "n_waiting (env_at 1709251200000) [risky_row] = 0"
    by (simp add: n_waiting_def count_where_def risky_row_late)
  have s1: "score (eligibility (subScores (analyzeCensusData (env_at 1705276800000) [risky_row]))) = 95"
    by (simp add: analyze_subscores eligibility_of_def a eligibilityScore_values
        Math_round_numeral)
  have s2: "score (eligibility (subScores (analyzeCensusData (env_at 1709251200000) [risky_row]))) = 100"
    by (simp add: analyze_subscores eligibility_of_def b eligibilityScore_values
        Math_round_numeral)
  from s1 s2 show ?thesis by auto
qed

section \<open>The empty input\<close>

text \<open>
  Claim C3. For the empty record sequence the engine returns the fixed degenerate
  result: overall score 0, risk band High, the four sub-scores 0 with empty issue
  lists, the executive summary \<open>No data found in file.\<close>, no anomaly, no risk driver
  and a predicted EOI volume of 0. This holds in every environment.
\<close>

theorem empty_input_result:
  "overallScore (analyzeCensusData e []) = 0 \<and>
   riskLevel (analyzeCensusData e []) = High \<and>
   score (completeness (subScores (analyzeCensusData e []))) = 0 \<and>
   issues (completeness (subScores (analyzeCensusData e []))) = [] \<and>
   score (consistency (subScores (analyzeCensusData e []))) = 0 \<and>
   issues (consistency (subScores (analyzeCensusData e []))) = [] \<and>
   score (eligibility (subScores (analyzeCensusData e []))) = 0 \<and>
   issues (eligibility (subScores (analyzeCensusData e []))) = [] \<and>
   score (eoiRisk (subScores (analyzeCensusData e []))) = 0 \<and>
   issues (eoiRisk (subScores (analyzeCensusData e []))) = [] \<and>
   executiveSummary (analyzeCensusData e []) = ''No data found in file.'' \<and>
   anomalies (analyzeCensusData e []) = [] \<and>
   topRiskDrivers (analyzeCensusData e []) = [] \<and>
   eoiVolume (predictedImpact (analyzeCensusData e [])) = 0"
  by (simp add: analyze_empty empty_result_def)

text \<open>The degenerate result in the concrete environment.\<close>

theorem empty_input_result_witness:
  "overallScore (analyzeCensusData env0 []) = 0 \<and>
   riskLevel (analyzeCensusData env0 []) = High \<and>
   executiveSummary (analyzeCensusData env0 []) = ''No data found in file.'' \<and>
   topRiskDrivers (analyzeCensusData env0 []) = [] \<and>
   eoiVolume (predictedImpact (analyzeCensusData env0 [])) = 0"
  using empty_input_result [of env0] by simp

section \<open>Recommended actions\<close>

lemma actions_of_nonempty: "actions_of mSal gi dup vol \<noteq> []"
  by (simp add: actions_of_def push_if_def Let_def)

lemma actions_of_fallback: "actions_of 0 0 0 0 = [general_action]"
  by (simp add: actions_of_def push_if_def Let_def general_action_def)

text \<open>
  Claim C4, amended. For the empty record sequence the recommended-action list is
  empty. For every non-empty record sequence it is non-empty, and when no conditional
  action applies (no missing salary, no row above the GI limit, no duplicate
  identifier, no voluntary multiple above the plan maximum) it is the single fallback
  action General / Proceed to enrollment.
\<close>

theorem actions_nonempty:
  "recommendedActions (analyzeCensusData e []) = [] \<and>
   (rows \<noteq> [] \<longrightarrow>
      recommendedActions (analyzeCensusData e rows) \<noteq> [] \<and>
      (n_missingSalary e rows = 0 \<and> n_exceedsGI e rows = 0 \<and>
       duplicateIdCount e rows = 0 \<and> n_volOverMax e rows = 0 \<longrightarrow>
         recommendedActions (analyzeCensusData e rows) = [general_action]))"
  by (simp add: analyze_empty empty_result_def analyze_actions actions_of_nonempty
      actions_of_fallback)

text \<open>One clean row: the hypotheses hold and the list is the fallback action.\<close>

theorem actions_nonempty_witness:
  "recommendedActions (analyzeCensusData env0 [clean_row ''1'']) = [general_action]"
proof -
  have "n_missingSalary env0 [clean_row ''1''] = 0" "n_exceedsGI env0 [clean_row ''1''] = 0"
    "n_volOverMax env0 [clean_row ''1''] = 0"
    by (simp_all add: n_missingSalary_def n_exceedsGI_def n_volOverMax_def count_where_def
        env0_def clean_row_facts)
  then show ?thesis
    using actions_nonempty [of env0 "[clean_row ''1'']"] by (simp add: dup_single)
qed

text \<open>
  Claim C4 says that the recommended-action list is non-empty for every input, the
  empty one included. The early return for an empty array has
  \<open>recommendedActions: []\<close>:
\<close>

theorem actions_empty_input_counterexample:
  "recommendedActions (analyzeCensusData env0 []) = []"
  by (simp add: analyze_empty empty_result_def)

section \<open>Duplicate identifiers\<close>












lemma occurrences_triple:
  "occurrences triple_id_rows ''A'' = 3" "occurrences triple_id_rows ''B'' = 1"
  "occurrences triple_id_rows [] = 2"
  by (simp_all add: occurrences_def count_where_def triple_id_rows_def clean_row_def)


section \<open>Risk drivers\<close>







section \<open>The worked example of ten records\<close>

text \<open>
  Claim C7, amended. For every sequence of 10 records in which exactly 2 records have
  no positive parsed salary (the parsed salary is \<open>\<le> 0\<close> or \<open>NaN\<close>), exactly 1 has
  a missing or invalid date of birth, and no other condition is triggered (no
  voluntary multiple over the maximum, no coverage with zero salary, no waiting
  period, no GI-exceeding volume, no duplicates), the engine yields Completeness 86,
  Consistency 100, Eligibility 100, EOI Risk 94, the overall score 95 and the risk
  band Low.
\<close>

theorem example_ten_rows:
  assumes R: "ieee_rounding (fl e)"
    and n: "length rows = 10"
    and c: "n_missingSalary e rows = 2" "n_missingDob e rows = 1" "n_volOverMax e rows = 0"
      "n_zeroSalaryCov e rows = 0" "n_waiting e rows = 0" "n_exceedsGI e rows = 0"
    and d: "duplicateIdCount e rows = 0"
  shows "score (completeness (subScores (analyzeCensusData e rows))) = 86 \<and>
         score (consistency (subScores (analyzeCensusData e rows))) = 100 \<and>
         score (eligibility (subScores (analyzeCensusData e rows))) = 100 \<and>
         score (eoiRisk (subScores (analyzeCensusData e rows))) = 94 \<and>
         overallScore (analyzeCensusData e rows) = 95 \<and>
         riskLevel (analyzeCensusData e rows) = Low"
proof -
  have ne: "rows \<noteq> []" using n by auto
  have adj: "compDensityAdj (fl e) 10 2 (Suc 0) = 0"
    by (rule compDensityAdj_dense [OF R]) simp_all
  have cm: "completeness_of e rows = 86"
    by (simp add: completeness_of_def n c completenessScore_def adj clamp100_def
        PENALTY_MISSING_SALARY_def PENALTY_MISSING_DOB_def)
  have cs: "consistency_of e rows = 100"
    by (simp add: consistency_of_def n c consistencyScore_def consDensityAdj_none clamp100_def)
  have el: "eligibility_of e rows = 100"
    by (simp add: eligibility_of_def c eligibilityScore_values)
  have eo: "eoiRisk_of e rows = 94"
    using eoiScore_no_gi [OF R, of 2 10] by (simp add: eoiRisk_of_def n c)
  have ov: "overallScore (analyzeCensusData e rows) = 95"
    by (simp add: analyze_overall [OF ne] cm cs el eo overall_86_100_100_94 [OF R])
  show ?thesis
    by (simp add: analyze_subscores [OF ne] analyze_riskLevel [OF ne] ov cm cs el eo
        Math_round_numeral riskLevel_of_def)
qed

lemma c7_rows_counts:
  "length c7_rows = 10" "n_missingSalary env0 c7_rows = 2" "n_missingDob env0 c7_rows = 1"
  "n_volOverMax env0 c7_rows = 0" "n_zeroSalaryCov env0 c7_rows = 0"
  "n_waiting env0 c7_rows = 0" "n_exceedsGI env0 c7_rows = 0"
  by (simp_all add: c7_rows_def n_missingSalary_def n_missingDob_def n_volOverMax_def
      n_zeroSalaryCov_def n_waiting_def n_exceedsGI_def count_where_def
      env0_row_facts)

lemma c7_rows_distinct: "duplicateIdCount env0 c7_rows = 0"
  unfolding duplicateIdCount_def forEach_ids
  by (simp add: initial_counters_def truthy_ids_def c7_rows_def clean_row_def
      no_salary_row_def no_dob_row_def count_id_def)

text \<open>Ten rows of the concrete environment: two with salary 0, one with an empty date of birth.\<close>

theorem example_ten_rows_witness:
  "score (completeness (subScores (analyzeCensusData env0 c7_rows))) = 86 \<and>
   score (consistency (subScores (analyzeCensusData env0 c7_rows))) = 100 \<and>
   score (eligibility (subScores (analyzeCensusData env0 c7_rows))) = 100 \<and>
   score (eoiRisk (subScores (analyzeCensusData env0 c7_rows))) = 94 \<and>
   overallScore (analyzeCensusData env0 c7_rows) = 95 \<and>
   riskLevel (analyzeCensusData env0 c7_rows) = Low"
  by (rule example_ten_rows [OF ieee_rounding_env0 c7_rows_counts c7_rows_distinct])

text \<open>
  Claim C7 counts the records whose parsed salary is \<open>\<le> 0\<close>. The engine counts the
  records whose parsed salary is not \<open>> 0\<close>, and a salary that is the number \<open>NaN\<close>
  is neither: with a third record of salary \<open>NaN\<close> the hypotheses of the claim hold
  and Completeness is 81.
\<close>

lemma c7_nan_rows_counts:
  "length c7_nan_rows = 10" "count_where (salary_le_zero env0) c7_nan_rows = 2"
  "n_missingSalary env0 c7_nan_rows = 3" "n_missingDob env0 c7_nan_rows = 1"
  "n_volOverMax env0 c7_nan_rows = 0" "n_zeroSalaryCov env0 c7_nan_rows = 0"
  "n_waiting env0 c7_nan_rows = 0" "n_exceedsGI env0 c7_nan_rows = 0"
  by (simp_all add: c7_nan_rows_def n_missingSalary_def n_missingDob_def n_volOverMax_def
      n_zeroSalaryCov_def n_waiting_def n_exceedsGI_def count_where_def
      env0_row_facts)

lemma c7_nan_rows_distinct: "duplicateIdCount env0 c7_nan_rows = 0"
  unfolding duplicateIdCount_def forEach_ids
  by (simp add: initial_counters_def truthy_ids_def c7_nan_rows_def clean_row_def
      no_salary_row_def no_dob_row_def nan_salary_row_def count_id_def)

theorem example_ten_rows_nan_counterexample:
  "ieee_rounding (fl env0) \<and> length c7_nan_rows = 10 \<and>
   count_where (salary_le_zero env0) c7_nan_rows = 2 \<and>
   n_missingDob env0 c7_nan_rows = 1 \<and> n_volOverMax env0 c7_nan_rows = 0 \<and>
   n_zeroSalaryCov env0 c7_nan_rows = 0 \<and> n_waiting env0 c7_nan_rows = 0 \<and>
   n_exceedsGI env0 c7_nan_rows = 0 \<and> duplicateIdCount env0 c7_nan_rows = 0 \<and>
   score (completeness (subScores (analyzeCensusData env0 c7_nan_rows))) = 81 \<and>
   score (eoiRisk (subScores (analyzeCensusData env0 c7_nan_rows))) = 91"
proof -
  have ne: "c7_nan_rows \<noteq> []" by (simp add: c7_nan_rows_def)
  have adj: "compDensityAdj (fl env0) 10 3 (Suc 0) = 0"
    by (rule compDensityAdj_dense [OF ieee_rounding_env0]) simp_all
  have cm: "completeness_of env0 c7_nan_rows = 81"
    by (simp add: completeness_of_def c7_nan_rows_counts completenessScore_def adj clamp100_def
        PENALTY_MISSING_SALARY_def PENALTY_MISSING_DOB_def)
  have eo: "eoiRisk_of env0 c7_nan_rows = 91"
    using eoiScore_no_gi [OF ieee_rounding_env0, of 3 10]
    by (simp add: eoiRisk_of_def c7_nan_rows_counts)
  show ?thesis
    by (simp add: ieee_rounding_env0 c7_nan_rows_counts c7_nan_rows_distinct
        analyze_subscores [OF ne] cm eo Math_round_numeral)
qed

section \<open>Monotonicity in the missing-salary count\<close>

text \<open>
  Claim C8. With the total record count and the other counts fixed, the Completeness
  sub-score and the EOI-Risk sub-score do not increase when the missing-salary count
  increases. This holds for the score formulas at all counts, before and after
  \<open>Math.round\<close>, and for the results of the engine on two non-empty record sequences
  of the same length with the same missing-date-of-birth and GI-exceeding counts.
\<close>

theorem missing_salary_monotone:
  assumes R: "ieee_rounding (fl e)" and le: "m \<le> m'"
    and rows: "rows \<noteq> []" "length rows' = length rows"
      "n_missingDob e rows' = n_missingDob e rows" "n_exceedsGI e rows' = n_exceedsGI e rows"
      "n_missingSalary e rows \<le> n_missingSalary e rows'"
  shows "completenessScore (fl e) n m' d \<le> completenessScore (fl e) n m d \<and>
         eoiScore (fl e) n g m' \<le> eoiScore (fl e) n g m \<and>
         Math_round (completenessScore (fl e) n m' d) \<le> Math_round (completenessScore (fl e) n m d) \<and>
         Math_round (eoiScore (fl e) n g m') \<le> Math_round (eoiScore (fl e) n g m) \<and>
         score (completeness (subScores (analyzeCensusData e rows')))
           \<le> score (completeness (subScores (analyzeCensusData e rows))) \<and>
         score (eoiRisk (subScores (analyzeCensusData e rows')))
           \<le> score (eoiRisk (subScores (analyzeCensusData e rows)))"
proof -
  have ne: "rows' \<noteq> []" using rows(1,2) by auto
  have c: "completenessScore (fl e) n m' d \<le> completenessScore (fl e) n m d"
    using R le by (rule completenessScore_antimono)
  have o: "eoiScore (fl e) n g m' \<le> eoiScore (fl e) n g m"
    using R le by (rule eoiScore_antimono)
  have cr: "completeness_of e rows' \<le> completeness_of e rows"
    unfolding completeness_of_def rows(2,3)
    using R rows(5) by (rule completenessScore_antimono)
  have er: "eoiRisk_of e rows' \<le> eoiRisk_of e rows"
    unfolding eoiRisk_of_def rows(2,4)
    using R rows(5) by (rule eoiScore_antimono)
  show ?thesis
    using c o cr er
    by (simp add: analyze_subscores [OF rows(1)] analyze_subscores [OF ne] Math_round_mono)
qed

text \<open>
  From two to three missing salaries among ten rows, and from a clean pair of rows to a
  pair in which one salary is 0.
\<close>

theorem missing_salary_monotone_witness:
  "completenessScore (fl env0) 10 3 1 \<le> completenessScore (fl env0) 10 2 1 \<and>
   eoiScore (fl env0) 10 0 3 \<le> eoiScore (fl env0) 10 0 2 \<and>
   score (completeness (subScores (analyzeCensusData env0 [no_salary_row ''1'', clean_row ''2''])))
     \<le> score (completeness (subScores (analyzeCensusData env0 [clean_row ''1'', clean_row ''2'']))) \<and>
   score (eoiRisk (subScores (analyzeCensusData env0 [no_salary_row ''1'', clean_row ''2''])))
     \<le> score (eoiRisk (subScores (analyzeCensusData env0 [clean_row ''1'', clean_row ''2''])))"
proof -
  let ?rows = "[clean_row ''1'', clean_row ''2'']"
  let ?rows' = "[no_salary_row ''1'', clean_row ''2'']"
  have R: "ieee_rounding (fl env0)"
    by (simp add: env0_def env_at_def ieee_rounding_exact)
  have h: "?rows \<noteq> []" "length ?rows' = length ?rows"
    "n_missingDob env0 ?rows' = n_missingDob env0 ?rows"
    "n_exceedsGI env0 ?rows' = n_exceedsGI env0 ?rows"
    "n_missingSalary env0 ?rows \<le> n_missingSalary env0 ?rows'"
    by (simp_all add: n_missingDob_def n_exceedsGI_def n_missingSalary_def count_where_def
        env0_def clean_row_facts no_salary_row_facts)
  have "(2::nat) \<le> 3" by simp
  from missing_salary_monotone [OF R this h, of 10 1 0] show ?thesis by simp
qed

section \<open>Monetary parsing\<close>

text \<open>
  Claim C9. \<open>parseMoney\<close> returns a numeric input unchanged. On a string it removes
  every character other than a digit, \<open>.\<close> and \<open>-\<close>, gives the remainder to
  \<open>parseFloat\<close> and returns the number parsed; it returns 0 when the input is empty
  (or absent) or when the remainder does not parse (\<open>parseFloat\<close> gives \<open>NaN\<close>).
\<close>

theorem parseMoney_spec:
  "parseMoney e (JNum n) = n \<and>
   parseMoney e JUndefined = Finite 0 \<and>
   parseMoney e (JStr s) =
     (if s = [] \<or> parseFloat e (filter money_char s) = NaN then Finite 0
      else parseFloat e (filter money_char s)) \<and>
   (money_char c \<longleftrightarrow> is_digit c \<or> c = CHR ''.'' \<or> c = CHR ''-'')"
proof -
  have "or_zero v = (if v = NaN then Finite 0 else v)" for v
    by (cases v) auto
  then show ?thesis
    by (auto simp add: replace_non_money_filter money_char_def is_digit_def)
qed

text \<open>With the concrete \<open>parseFloat\<close>: a currency string, a string without digits, the empty string.\<close>

theorem parseMoney_spec_witness:
  "parseMoney env0 (JNum (Finite 7)) = Finite 7 \<and>
   parseMoney env0 (JStr ''$1,234.50 USD'') = Finite (2469 / 2) \<and>
   parseMoney env0 (JStr ''n/a'') = Finite 0 \<and>
   parseMoney env0 (JStr []) = Finite 0"
  using parseMoney_spec [of env0 "Finite 7" "''$1,234.50 USD''"]
    parseMoney_spec [of env0 "Finite 7" "''n/a''"] parseMoney_spec [of env0 "Finite 7" "[]"]
  by (simp add: env0_def env_at_simps money_char_def decimal_parseFloat_def is_space_def
      unsigned_decimal_def is_digit_def digits_val_def digit_val_def exponent_part_def
      scale10_def)

section \<open>The overall score and the rounded sub-scores\<close>

lemma gap_rows_counts:
  assumes R: "ieee_rounding (fl e)"
  shows "n_missingSalary e gap_rows = 0" "n_missingDob e gap_rows = 3"
    "n_volOverMax e gap_rows = 1" "n_zeroSalaryCov e gap_rows = 0"
    "n_waiting e gap_rows = 0" "n_exceedsGI e gap_rows = 2"
  by (simp_all add: gap_rows_def salaried_row_def n_missingSalary_def n_missingDob_def
      n_volOverMax_def n_zeroSalaryCov_def n_waiting_def n_exceedsGI_def count_where_def
      row_eval rd_exact_values [OF R])

lemma gap_rows_scores:
  assumes R: "ieee_rounding (fl e)"
  shows "completeness_of e gap_rows = 88" "consistency_of e gap_rows = 79"
    "eligibility_of e gap_rows = 100" "eoiRisk_of e gap_rows = eoiScore (fl e) 3 2 0"
proof -
  have len: "length gap_rows = 3" by (simp add: gap_rows_def)
  have adj: "compDensityAdj (fl e) 3 0 3 = 0"
    by (rule compDensityAdj_dense [OF R]) simp_all
  show "completeness_of e gap_rows = 88"
    by (simp add: completeness_of_def len gap_rows_counts [OF R] completenessScore_def adj
        clamp100_def PENALTY_MISSING_SALARY_def PENALTY_MISSING_DOB_def)
  have cadj: "consDensityAdj (fl e) 3 (Suc 0) 0 = - 15"
    by (rule consDensityAdj_dense [OF R]) simp_all
  show "consistency_of e gap_rows = 79"
    by (simp add: consistency_of_def len gap_rows_counts [OF R] consistencyScore_def cadj
        clamp100_def PENALTY_VOL_OVER_MAX_def PENALTY_ZERO_SALARY_COV_def)
  show "eligibility_of e gap_rows = 100"
    by (simp add: eligibility_of_def gap_rows_counts [OF R] eligibilityScore_values)
  show "eoiRisk_of e gap_rows = eoiScore (fl e) 3 2 0"
    by (simp add: eoiRisk_of_def len gap_rows_counts [OF R])
qed

lemma clamped_rows_counts:
  assumes R: "ieee_rounding (fl e)"
  shows "length clamped_rows = 12" "n_missingSalary e clamped_rows = 12"
    "n_missingDob e clamped_rows = 12" "n_volOverMax e clamped_rows = 0"
    "n_zeroSalaryCov e clamped_rows = 0" "n_waiting e clamped_rows = 0"
    "n_exceedsGI e clamped_rows = 0"
  by (simp_all add: clamped_rows_def unpaid_row_def salaried_row_def n_missingSalary_def
      n_missingDob_def n_volOverMax_def n_zeroSalaryCov_def n_waiting_def n_exceedsGI_def
      count_where_def row_eval rd_exact_values [OF R])

lemma clamped_rows_scores:
  assumes R: "ieee_rounding (fl e)"
  shows "completeness_of e clamped_rows = 0" "consistency_of e clamped_rows = 100"
    "eligibility_of e clamped_rows = 100" "eoiRisk_of e clamped_rows = 64"
proof -
  note c = clamped_rows_counts [OF R]
  have adj: "compDensityAdj (fl e) 12 12 12 = 0"
    by (rule compDensityAdj_over [OF R]) simp_all
  show "completeness_of e clamped_rows = 0"
    by (simp add: completeness_of_def c completenessScore_def adj clamp100_def
        PENALTY_MISSING_SALARY_def PENALTY_MISSING_DOB_def)
  show "consistency_of e clamped_rows = 100"
    by (simp add: consistency_of_def c consistencyScore_def consDensityAdj_none clamp100_def)
  show "eligibility_of e clamped_rows = 100"
    by (simp add: eligibility_of_def c eligibilityScore_values)
  show "eoiRisk_of e clamped_rows = 64"
    using eoiScore_no_gi [OF R, of 12 12] by (simp add: eoiRisk_of_def c)
qed

text \<open>
  Claim C10. For every non-empty record sequence, let \<open>cmpl\<close>, \<open>cons\<close>, \<open>elig\<close>
  and \<open>eoi\<close> be the four sub-score values after clamping to the interval from 0 to
  100 (\<open>Math.min(100, Math.max(0, x))\<close>) and before rounding, and \<open>wsum\<close> the sum
  \<open>cmpl * 0.30 + cons * 0.25 + elig * 0.25 + eoi * 0.20\<close> as double arithmetic
  computes it from the left. The overall score is \<open>Math.round\<close> of \<open>wsum\<close>, that
  is the integer \<open>k\<close> with \<open>k \<le> wsum + 1/2 < k + 1\<close>, and each reported sub-score is
  \<open>Math.round\<close> of its own value; \<open>wsum\<close> is within a thousandth of the exact weighted
  sum. So the overall score can differ from the weighted sum over the reported
  sub-scores: on three rows of which two exceed the GI limit the EOI-Risk value is
  about 46.67 and reported as 47, the overall score is 80, and the weighted sum
  \<open>vsum\<close> over the reported sub-scores rounds to 81. And the sum is taken over the
  clamped values: on twelve rows without salary and date of birth the raw
  Completeness is -8, it is reported as 0, and the overall score is 63.
\<close>

theorem overall_from_unrounded:
  assumes ne: "rows \<noteq> []"
    and hc: "cmpl = min 100 (max 0
              (100 - real (5 * n_missingSalary e rows + 4 * n_missingDob e rows)
               + compDensityAdj (fl e) (length rows) (n_missingSalary e rows)
                   (n_missingDob e rows)))"
    and hs: "cons = min 100 (max 0
              (100 - real (6 * n_volOverMax e rows + 5 * n_zeroSalaryCov e rows)
               + consDensityAdj (fl e) (length rows) (n_volOverMax e rows)
                   (n_zeroSalaryCov e rows)))"
    and hg: "elig = min 100 (max 0 (100 - real (5 * n_waiting e rows)))"
    and ho: "eoi = min 100 (max 0
              (fl e (fl e (100 - fl e (fl e (fl e (real (n_exceedsGI e rows) / real (length rows))
                                               * 100) * fl e (8 / 10)))
                     - real (3 * n_missingSalary e rows))))"
    and hw: "wsum = fl e (fl e (fl e (fl e (cmpl * fl e (30 / 100)) + fl e (cons * fl e (25 / 100)))
                            + fl e (elig * fl e (25 / 100)))
                     + fl e (eoi * fl e (20 / 100)))"
    and hv: "vsum = fl e (fl e (fl e
                  (fl e (real_of_int (score (completeness (subScores (analyzeCensusData e gap_rows))))
                           * fl e (30 / 100))
                   + fl e (real_of_int (score (consistency (subScores (analyzeCensusData e gap_rows))))
                           * fl e (25 / 100)))
                   + fl e (real_of_int (score (eligibility (subScores (analyzeCensusData e gap_rows))))
                           * fl e (25 / 100)))
                   + fl e (real_of_int (score (eoiRisk (subScores (analyzeCensusData e gap_rows))))
                           * fl e (20 / 100)))"
  shows "real_of_int (overallScore (analyzeCensusData e rows)) \<le> wsum + 1 / 2 \<and>
         wsum + 1 / 2 < real_of_int (overallScore (analyzeCensusData e rows)) + 1 \<and>
         real_of_int (score (completeness (subScores (analyzeCensusData e rows)))) \<le> cmpl + 1 / 2 \<and>
         cmpl + 1 / 2 < real_of_int (score (completeness (subScores (analyzeCensusData e rows)))) + 1 \<and>
         real_of_int (score (consistency (subScores (analyzeCensusData e rows)))) \<le> cons + 1 / 2 \<and>
         cons + 1 / 2 < real_of_int (score (consistency (subScores (analyzeCensusData e rows)))) + 1 \<and>
         real_of_int (score (eligibility (subScores (analyzeCensusData e rows)))) \<le> elig + 1 / 2 \<and>
         elig + 1 / 2 < real_of_int (score (eligibility (subScores (analyzeCensusData e rows)))) + 1 \<and>
         real_of_int (score (eoiRisk (subScores (analyzeCensusData e rows)))) \<le> eoi + 1 / 2 \<and>
         eoi + 1 / 2 < real_of_int (score (eoiRisk (subScores (analyzeCensusData e rows)))) + 1 \<and>
         (ieee_rounding (fl e) \<longrightarrow>
            \<bar>wsum - (30 / 100 * cmpl + 25 / 100 * cons + 25 / 100 * elig + 20 / 100 * eoi)\<bar> \<le> 1 / 1000) \<and>
         (ieee_rounding (fl e) \<longrightarrow>
            overallScore (analyzeCensusData e gap_rows) = 80 \<and>
            81 \<le> vsum + 1 / 2 \<and> vsum + 1 / 2 < 82 \<and>
            score (completeness (subScores (analyzeCensusData e clamped_rows))) = 0 \<and>
            overallScore (analyzeCensusData e clamped_rows) = 63)"
proof -
  have c: "completeness_of e rows = cmpl"
    by (simp add: hc completeness_of_def completenessScore_def clamp100_def Let_def
        PENALTY_MISSING_SALARY_def PENALTY_MISSING_DOB_def mult.commute)
  have s: "consistency_of e rows = cons"
    by (simp add: hs consistency_of_def consistencyScore_def clamp100_def Let_def
        PENALTY_VOL_OVER_MAX_def PENALTY_ZERO_SALARY_COV_def mult.commute)
  have g: "eligibility_of e rows = elig"
    by (simp add: hg eligibility_of_def eligibilityScore_def clamp100_def Let_def
        PENALTY_WAITING_PERIOD_def PENALTY_INELIGIBLE_DEP_def mult.commute)
  have o: "eoiRisk_of e rows = eoi"
    by (simp add: ho eoiRisk_of_def eoiScore_def eoiRatePercent_def clamp100_def Let_def
        PENALTY_EOI_MISSING_SALARY_def mult.commute)
  have w: "weightedScore (fl e) cmpl cons elig eoi = wsum"
    by (simp add: hw weightedScore_def)
  have ov: "overallScore (analyzeCensusData e rows) = Math_round wsum"
    by (simp add: analyze_overall [OF ne] c s g o w)
  note sub = analyze_subscores [OF ne, of e, unfolded c s g o]
  have rng: "0 \<le> cmpl" "cmpl \<le> 100" "0 \<le> cons" "cons \<le> 100" "0 \<le> elig" "elig \<le> 100" "0 \<le> eoi" "eoi \<le> 100"
    by (simp_all add: hc hs hg ho)
  have approx: "\<bar>wsum - (30 / 100 * cmpl + 25 / 100 * cons + 25 / 100 * elig + 20 / 100 * eoi)\<bar> \<le> 1 / 1000"
    if R: "ieee_rounding (fl e)"
    using weightedScore_approx0 [OF R rng] by (simp add: w mult.commute)
  have ex: "overallScore (analyzeCensusData e gap_rows) = 80 \<and>
            81 \<le> vsum + 1 / 2 \<and> vsum + 1 / 2 < 82 \<and>
            score (completeness (subScores (analyzeCensusData e clamped_rows))) = 0 \<and>
            overallScore (analyzeCensusData e clamped_rows) = 63"
    if R: "ieee_rounding (fl e)"
  proof -
    have gne: "gap_rows \<noteq> []" by (simp add: gap_rows_def)
    have cne: "clamped_rows \<noteq> []" by (simp add: clamped_rows_def)
    note gs = gap_rows_scores [OF R]
    note cs = clamped_rows_scores [OF R]
    have a: "overallScore (analyzeCensusData e gap_rows) = 80"
      by (simp add: analyze_overall [OF gne] gs overall_88_79_100_two_thirds [OF R])
    have "vsum = weightedScore (fl e) 88 79 100 47"
      by (simp add: hv weightedScore_def analyze_subscores [OF gne] gs Math_round_numeral
          round_two_thirds [OF R])
    then have "Math_round vsum = 81" by (simp add: overall_88_79_100_47 [OF R])
    then have b: "81 \<le> vsum + 1 / 2 \<and> vsum + 1 / 2 < 82"
      using Math_round_bounds [of vsum] by simp
    have d: "score (completeness (subScores (analyzeCensusData e clamped_rows))) = 0"
      by (simp add: analyze_subscores [OF cne] cs Math_round_def)
    have f: "overallScore (analyzeCensusData e clamped_rows) = 63"
      by (simp add: analyze_overall [OF cne] cs overall_0_100_100_64 [OF R])
    from a b d f show ?thesis by simp
  qed
  show ?thesis
    using Math_round_bounds [of wsum] Math_round_bounds [of cmpl] Math_round_bounds [of cons]
      Math_round_bounds [of elig] Math_round_bounds [of eoi] approx ex
    by (simp add: ov sub)
qed

text \<open>
  In exact arithmetic the values on the three rows are 88, 79, 100 and 140/3, and
  their weighted sum is 4829/60: the inequalities of the theorem fix the overall score
  at 80 and the reported sub-scores at 88, 79, 100 and 47.
\<close>

theorem overall_from_unrounded_witness:
  "overallScore (analyzeCensusData env0 gap_rows) = 80 \<and>
   score (completeness (subScores (analyzeCensusData env0 gap_rows))) = 88 \<and>
   score (consistency (subScores (analyzeCensusData env0 gap_rows))) = 79 \<and>
   score (eligibility (subScores (analyzeCensusData env0 gap_rows))) = 100 \<and>
   score (eoiRisk (subScores (analyzeCensusData env0 gap_rows))) = 47 \<and>
   score (completeness (subScores (analyzeCensusData env0 clamped_rows))) = 0 \<and>
   overallScore (analyzeCensusData env0 clamped_rows) = 63"
proof -
  note R = ieee_rounding_env0
  have id: "fl env0 = (\<lambda>x. x)" by (simp add: env0_def env_at_def)
  have ne: "gap_rows \<noteq> []" and len: "length gap_rows = 3" by (simp_all add: gap_rows_def)
  note c = gap_rows_counts [OF R]
  have adj: "compDensityAdj (fl env0) 3 0 3 = 0"
    by (rule compDensityAdj_over [OF R]) simp_all
  have cadj: "consDensityAdj (fl env0) 3 (Suc 0) 0 = - 15"
    by (rule consDensityAdj_dense [OF R]) simp_all
  have hc: "(88::real) = min 100 (max 0
              (100 - real (5 * n_missingSalary env0 gap_rows + 4 * n_missingDob env0 gap_rows)
               + compDensityAdj (fl env0) (length gap_rows) (n_missingSalary env0 gap_rows)
                   (n_missingDob env0 gap_rows)))"
    by (simp add: c len adj)
  have hs: "(79::real) = min 100 (max 0
              (100 - real (6 * n_volOverMax env0 gap_rows + 5 * n_zeroSalaryCov env0 gap_rows)
               + consDensityAdj (fl env0) (length gap_rows) (n_volOverMax env0 gap_rows)
                   (n_zeroSalaryCov env0 gap_rows)))"
    by (simp add: c len cadj)
  have hg: "(100::real) = min 100 (max 0 (100 - real (5 * n_waiting env0 gap_rows)))"
    by (simp add: c)
  have ho: "(140 / 3::real) = min 100 (max 0
              (fl env0 (fl env0 (100 - fl env0 (fl env0 (fl env0
                   (real (n_exceedsGI env0 gap_rows) / real (length gap_rows)) * 100)
                   * fl env0 (8 / 10)))
                 - real (3 * n_missingSalary env0 gap_rows))))"
    by (simp add: c len id)
  have hw: "(4829 / 60::real) =
              fl env0 (fl env0 (fl env0 (fl env0 (88 * fl env0 (30 / 100))
                                          + fl env0 (79 * fl env0 (25 / 100)))
                                + fl env0 (100 * fl env0 (25 / 100)))
                       + fl env0 (140 / 3 * fl env0 (20 / 100)))"
    by (simp add: id)
  note T = overall_from_unrounded [OF ne hc hs hg ho hw refl]
  note T1 = T [THEN conjunct1]
  note U2 = T [THEN conjunct2]
  note T2 = U2 [THEN conjunct1]
  note U3 = U2 [THEN conjunct2]
  note T3 = U3 [THEN conjunct1]
  note U4 = U3 [THEN conjunct2]
  note T4 = U4 [THEN conjunct1]
  note U5 = U4 [THEN conjunct2]
  note T5 = U5 [THEN conjunct1]
  note U6 = U5 [THEN conjunct2]
  note T6 = U6 [THEN conjunct1]
  note U7 = U6 [THEN conjunct2]
  note T7 = U7 [THEN conjunct1]
  note U8 = U7 [THEN conjunct2]
  note T8 = U8 [THEN conjunct1]
  note U9 = U8 [THEN conjunct2]
  note T9 = U9 [THEN conjunct1]
  note U10 = U9 [THEN conjunct2]
  note T10 = U10 [THEN conjunct1]
  note T12 = U10 [THEN conjunct2, THEN conjunct2, THEN mp, OF R]
  have a: "overallScore (analyzeCensusData env0 gap_rows) = 80"
    using round_unique [OF T1 T2] by simp
  have b: "score (completeness (subScores (analyzeCensusData env0 gap_rows))) = 88"
    using round_unique [OF T3 T4] by simp
  have d: "score (consistency (subScores (analyzeCensusData env0 gap_rows))) = 79"
    using round_unique [OF T5 T6] by simp
  have f: "score (eligibility (subScores (analyzeCensusData env0 gap_rows))) = 100"
    using round_unique [OF T7 T8] by simp
  have g: "score (eoiRisk (subScores (analyzeCensusData env0 gap_rows))) = 47"
    using round_unique [OF T9 T10] by simp
  from T12 have h: "score (completeness (subScores (analyzeCensusData env0 clamped_rows))) = 0"
    "overallScore (analyzeCensusData env0 clamped_rows) = 63"
    by blast+
  from a b d f g h show ?thesis by blast
qed

end
